theory Spec2Isabelle
  imports Complex_Main
begin

section \<open>The entity-component world\<close>

text \<open>
  The program is one TypeScript file, \<^verbatim>\<open>src/index.ts\<close>. Its second half registers an
  entity-component behaviour called "Tap Place": on a screen touch it creates an entity,
  copies the components of a template entity onto it, places it at the touched point and
  starts a scale animation. The first half of the file (the LINE login) shares no state
  with it and is not modelled.

  The component objects of the engine (\<^verbatim>\<open>ecs.Position\<close>, \<^verbatim>\<open>ecs.Material\<close>, ...) are
  the constructors of \<open>component\<close>. The first eighteen are the ones the source lists in
  \<^verbatim>\<open>componentsForClone\<close>; \<open>Disabled\<close> is the one other engine component the source
  names; \<open>Other\<close> stands for every further component registered with the engine
  (lights, cameras, "Tap Place" itself, ...).
\<close>

datatype component =
    Position | Quaternion | Scale | Shadow | BoxGeometry | Material
  | ScaleAnimation | PositionAnimation | RotateAnimation
  | CustomPropertyAnimation | CustomVec3Animation
  | FollowAnimation | LookAtAnimation
  | GltfModel | Collider | ParticleEmitter | Ui | Audio
  | Disabled
  | Other string

text \<open>
  A component value is a JavaScript object: a finite table from property names to
  values. A number is the real number that the JavaScript value stands for; the one
  number the source computes, the random scale, is computed with the rounding of
  JavaScript's arithmetic (see \<open>fl\<close> below).
\<close>

datatype fval = FNum real | FBool bool | FStr string | FEid nat

type_synonym props = "string \<rightharpoonup> fval"

text \<open>
  The engine (\<^verbatim>\<open>@8thwall/ecs\<close>) is imported by the source, not part of it. Its world
  is modelled by what the source uses of it: the counter behind
  \<^verbatim>\<open>world.createEntity()\<close>, which hands out an entity id that was not handed out
  before; the table of component values per (component, entity), read by \<^verbatim>\<open>has\<close> and
  \<^verbatim>\<open>get\<close> and written by \<^verbatim>\<open>set\<close>; and the default value of each component (the
  engine's schema defaults, which the source does not show: they are a parameter of the
  model, carried by the world). Nothing is assumed about the table: an entity may have
  any components, also one that is yet to be created.
\<close>

record world =
  next_eid :: nat
  comps :: "component \<Rightarrow> nat \<Rightarrow> props option"
  defaults :: "component \<Rightarrow> props"

definition createEntity :: "world \<Rightarrow> nat \<times> world" where
  "createEntity w = (next_eid w, w\<lparr>next_eid := Suc (next_eid w)\<rparr>)"

definition component_has :: "component \<Rightarrow> world \<Rightarrow> nat \<Rightarrow> bool" where
  "component_has c w e = (comps w c e \<noteq> None)"

definition component_get :: "component \<Rightarrow> world \<Rightarrow> nat \<Rightarrow> props option" where
  "component_get c w e = comps w c e"

text \<open>
  \<^verbatim>\<open>component.set(world, eid, data)\<close> makes sure the entity has the component (starting
  from the component's defaults when it had none) and assigns the properties of
  \<^verbatim>\<open>data\<close> to it; properties that \<^verbatim>\<open>data\<close> does not mention keep their value.
  With a \<^verbatim>\<open>data\<close> that carries every property of the component, as the value that
  \<^verbatim>\<open>get\<close> returns does, this replaces the whole value.
\<close>

definition current_props :: "component \<Rightarrow> world \<Rightarrow> nat \<Rightarrow> props" where
  "current_props c w e = (case comps w c e of None \<Rightarrow> defaults w c | Some old \<Rightarrow> old)"

definition component_set :: "component \<Rightarrow> world \<Rightarrow> nat \<Rightarrow> props \<Rightarrow> world" where
  "component_set c w e d =
     w\<lparr>comps := (comps w)(c := (comps w c)(e \<mapsto> current_props c w e ++ d))\<rparr>"

section \<open>The entity cloner\<close>

definition componentsForClone :: "component list" where
  "componentsForClone =
     [Position, Quaternion, Scale, Shadow, BoxGeometry, Material,
      ScaleAnimation, PositionAnimation, RotateAnimation,
      CustomPropertyAnimation, CustomVec3Animation,
      FollowAnimation, LookAtAnimation,
      GltfModel, Collider, ParticleEmitter, Ui, Audio]"

text \<open>
  The body of the \<^verbatim>\<open>forEach\<close> callback of \<^verbatim>\<open>cloneComponents\<close>. The spread
  \<^verbatim>\<open>{ ...properties }\<close> is a fresh object with the same properties, which is the same
  table here. \<^verbatim>\<open>get\<close> is only called under \<^verbatim>\<open>has\<close>, so its \<open>None\<close> branch is
  never taken.
\<close>

definition clone_one :: "nat \<Rightarrow> nat \<Rightarrow> component \<Rightarrow> world \<Rightarrow> world" where
  "clone_one sourceEid targetEid c w =
     (if component_has c w sourceEid then
        (case component_get c w sourceEid of
           Some properties \<Rightarrow> component_set c w targetEid properties
         | None \<Rightarrow> w)
      else w)"

definition cloneComponents :: "nat \<Rightarrow> nat \<Rightarrow> world \<Rightarrow> world" where
  "cloneComponents sourceEid targetEid w =
     fold (clone_one sourceEid targetEid) componentsForClone w"

section \<open>The Tap Place behaviour\<close>

text \<open>
  An entity reference read from the schema is truthy in JavaScript when it is a non-zero
  id; \<open>NoEid\<close> is a reference that was never set (\<^verbatim>\<open>undefined\<close>).
\<close>

datatype eid_ref = NoEid | Eid nat

fun truthy_eid :: "eid_ref \<Rightarrow> nat option" where
  "truthy_eid NoEid = None"
| "truthy_eid (Eid n) = (if n = 0 then None else Some n)"

record tap_schema =
  entityToSpawn :: eid_ref
  minScale :: real
  maxScale :: real

text \<open>
  The data of "Tap Place" is one \<^verbatim>\<open>f64\<close> field. The handler only ever stores
  \<^verbatim>\<open>Date.now()\<close> in it, a whole number of milliseconds, so it is an integer here, and
  the subtraction in the handler is exact. The source gives the field no initial value;
  the engine starts numeric data fields at 0.
\<close>

record tap_data =
  lastInteractionTime :: int

text \<open>
  What the state machine's closure can reach: the world, the schema and data attributes
  of "Tap Place" (per controlled entity), and the console that \<^verbatim>\<open>console.error\<close>
  writes to.
\<close>

record state =
  world :: world
  schemaAttribute :: "nat \<Rightarrow> tap_schema"
  dataAttribute :: "nat \<Rightarrow> tap_data"
  console :: "string list"

text \<open>
  A touch-start event as the handler sees it: the event's world position, together with
  the two readings the handler takes from its environment while it runs,
  \<^verbatim>\<open>Date.now()\<close> (whole milliseconds) and \<^verbatim>\<open>Math.random()\<close>.
\<close>

record tap =
  worldPosition :: "real \<times> real \<times> real"
  dateNow :: int
  mathRandom :: real

fun vec3_props :: "real \<times> real \<times> real \<Rightarrow> props" where
  "vec3_props (a, b, c) = [''x'' \<mapsto> FNum a, ''y'' \<mapsto> FNum b, ''z'' \<mapsto> FNum c]"

text \<open>
  JavaScript numbers are IEEE 754 binary64 values, and each arithmetic operation returns
  the exact result rounded to the nearest binary64 value, ties to the one with an even
  significand. \<open>fl\<close> is this rounding on the reals: \<open>binade x\<close> is the exponent of
  \<open>x\<close> (at least -1022, where the subnormal range begins), \<open>quantum x\<close> the
  distance between neighbouring binary64 values there (52 fraction bits), \<open>rne\<close>
  rounds a real to the nearest integer, ties to even. On a concrete number the
  exponent is found from the two powers of two that enclose it (lemma \<open>binade_eq\<close>).
  A real number is a binary64 value when rounding leaves it as it is. IEEE rounding gives infinity from 2^1024 (less half a
  quantum) on; \<open>fl\<close> is IEEE rounding below that, which is where the values of this
  program lie: the schema fields are \<^verbatim>\<open>f32\<close>, at most 2^128 in magnitude, and then
  no operation of the scale formula exceeds 2^130 (lemma \<open>randomScale_in_range\<close>).
\<close>

definition pow2 :: "int \<Rightarrow> real" where
  "pow2 k = 2 powi k"

definition binade :: "real \<Rightarrow> int" where
  "binade x = (if x = 0 then - 1022 else max \<lfloor>log 2 \<bar>x\<bar>\<rfloor> (- 1022))"

definition quantum :: "real \<Rightarrow> real" where
  "quantum x = pow2 (binade x - 52)"

definition rne :: "real \<Rightarrow> int" where
  "rne t =
     (let f = \<lfloor>t\<rfloor>
      in if t - of_int f < 1 / 2 then f
         else if 1 / 2 < t - of_int f then f + 1
         else if even f then f else f + 1)"

definition fl :: "real \<Rightarrow> real" where
  "fl x = sgn x * (of_int (rne (\<bar>x\<bar> / quantum x)) * quantum x)"

definition binary64 :: "real \<Rightarrow> bool" where
  "binary64 x = (fl x = x)"

text \<open>
  \<^verbatim>\<open>Math.random() * (maxScale - minScale) + minScale\<close>: three operations, each
  rounded.
\<close>

definition randomScale :: "tap_schema \<Rightarrow> real \<Rightarrow> real" where
  "randomScale cfg r = fl (fl (r * fl (maxScale cfg - minScale cfg)) + minScale cfg)"

definition scale_animation_props :: "real \<Rightarrow> props" where
  "scale_animation_props s =
     [''fromX'' \<mapsto> FNum 0, ''fromY'' \<mapsto> FNum 0, ''fromZ'' \<mapsto> FNum 0,
      ''toX'' \<mapsto> FNum s, ''toY'' \<mapsto> FNum s, ''toZ'' \<mapsto> FNum s,
      ''duration'' \<mapsto> FNum 400,
      ''loop'' \<mapsto> FBool False,
      ''easeOut'' \<mapsto> FBool True,
      ''easingFunction'' \<mapsto> FStr ''Quadratic'']"

definition missing_template_message :: string where
  "missing_template_message =
     ''Couldn't create a clone. Did you forget to set entityToSpawn in the properties?''"

definition onEnter :: "nat \<Rightarrow> state \<Rightarrow> state" where
  "onEnter eid st =
     (case truthy_eid (entityToSpawn (schemaAttribute st eid)) of
        Some t \<Rightarrow> st\<lparr>world := component_set Disabled (world st) t Map.empty\<rparr>
      | None \<Rightarrow> st)"

definition listen_handler :: "nat \<Rightarrow> tap \<Rightarrow> state \<Rightarrow> state" where
  "listen_handler eid e st =
     (let cfg = schemaAttribute st eid;
          currentTime = dateNow e
      in if currentTime - lastInteractionTime (dataAttribute st eid) \<le> 500 then st
         else
           let st1 = st\<lparr>dataAttribute := (dataAttribute st)
                         (eid := (dataAttribute st eid)\<lparr>lastInteractionTime := currentTime\<rparr>)\<rparr>
           in case truthy_eid (entityToSpawn cfg) of
                Some t \<Rightarrow>
                  let (newEntity, w1) = createEntity (world st1);
                      rs = randomScale cfg (mathRandom e);
                      w2 = cloneComponents t newEntity w1;
                      w3 = component_set Position w2 newEntity (vec3_props (worldPosition e));
                      w4 = component_set ScaleAnimation w3 newEntity (scale_animation_props rs)
                  in st1\<lparr>world := w4\<rparr>
              | None \<Rightarrow> st1\<lparr>console := console st1 @ [missing_template_message]\<rparr>)"

text \<open>Touch events are handled one at a time, each to completion.\<close>

definition run :: "nat \<Rightarrow> tap list \<Rightarrow> state \<Rightarrow> state" where
  "run eid es st = fold (listen_handler eid) es st"

text \<open>
  The time stamps of the events of a sequence at which an entity was created, observed
  on the world's entity counter.
\<close>

fun spawn_times :: "nat \<Rightarrow> tap list \<Rightarrow> state \<Rightarrow> int list" where
  "spawn_times eid [] st = []"
| "spawn_times eid (e # es) st =
     (if next_eid (world (listen_handler eid e st)) \<noteq> next_eid (world st)
      then [dateNow e] else [])
     @ spawn_times eid es (listen_handler eid e st)"

section \<open>Auxiliary notions\<close>

text \<open>
  Two abbreviations of parts of the handler, used to state what it returns: \<open>stamp\<close>
  is the write to \<^verbatim>\<open>dataAttribute\<close>, \<open>spawn_world\<close> the world after the truthy
  branch (create, clone, place, animate).
\<close>

definition stamp :: "nat \<Rightarrow> int \<Rightarrow> state \<Rightarrow> state" where
  "stamp eid now st =
     st\<lparr>dataAttribute := (dataAttribute st)
           (eid := (dataAttribute st eid)\<lparr>lastInteractionTime := now\<rparr>)\<rparr>"

definition spawn_world :: "tap_schema \<Rightarrow> tap \<Rightarrow> nat \<Rightarrow> world \<Rightarrow> world" where
  "spawn_world cfg e t w =
     component_set ScaleAnimation
       (component_set Position
          (cloneComponents t (next_eid w) (w\<lparr>next_eid := Suc (next_eid w)\<rparr>))
          (next_eid w) (vec3_props (worldPosition e)))
       (next_eid w) (scale_animation_props (randomScale cfg (mathRandom e)))"

text \<open>
  A small scene for concrete runs: entity 2 is a template with a position, a material
  and a scale animation of its own; entity 4 has a position and an audio component; ten
  entities exist. \<open>armed0 r\<close> is a controller with template reference \<open>r\<close>, the
  default scale bounds and a data attribute that was never written; \<open>tap_at n\<close> is a
  touch at the point (1, 2, 3) at time \<open>n\<close>, with a random draw of one half.
\<close>

definition scene0 :: world where
  "scene0 =
     \<lparr>next_eid = 10,
      comps = (\<lambda>c x. None)
        (Position := [2 \<mapsto> [''x'' \<mapsto> FNum 5, ''y'' \<mapsto> FNum 6, ''z'' \<mapsto> FNum 7],
                      4 \<mapsto> [''x'' \<mapsto> FNum 0, ''y'' \<mapsto> FNum 0, ''z'' \<mapsto> FNum 0]],
         Material := [2 \<mapsto> [''color'' \<mapsto> FStr ''red'']],
         ScaleAnimation := [2 \<mapsto> [''toX'' \<mapsto> FNum 9, ''duration'' \<mapsto> FNum 50,
                                     ''loop'' \<mapsto> FBool True]],
         Audio := [4 \<mapsto> [''volume'' \<mapsto> FNum 1]]),
      defaults = (\<lambda>c. Map.empty)\<rparr>"

definition armed0 :: "eid_ref \<Rightarrow> state" where
  "armed0 r =
     \<lparr>world = scene0,
      schemaAttribute = (\<lambda>x. \<lparr>entityToSpawn = r, minScale = 1, maxScale = 3\<rparr>),
      dataAttribute = (\<lambda>x. \<lparr>lastInteractionTime = 0\<rparr>),
      console = []\<rparr>"

definition tap_at :: "int \<Rightarrow> tap" where
  "tap_at n = \<lparr>worldPosition = (1, 2, 3), dateNow = n, mathRandom = 1 / 2\<rparr>"

text \<open>
  The configuration with the schema's default bounds, and one whose two bounds coincide.
\<close>

definition default_cfg :: tap_schema where
  "default_cfg = \<lparr>entityToSpawn = Eid 2, minScale = 1, maxScale = 3\<rparr>"

definition degenerate_cfg :: tap_schema where
  "degenerate_cfg = \<lparr>entityToSpawn = Eid 2, minScale = 2, maxScale = 2\<rparr>"

text \<open>
  One property of a component of an entity, and a controller whose template has a scale
  animation with properties that the handler does not write.
\<close>

definition component_prop :: "component \<Rightarrow> world \<Rightarrow> nat \<Rightarrow> string \<Rightarrow> fval option" where
  "component_prop c w e f = (case comps w c e of None \<Rightarrow> None | Some p \<Rightarrow> p f)"

definition armed_auto :: state where
  "armed_auto =
     (armed0 (Eid 2))\<lparr>world := scene0\<lparr>comps := (comps scene0)
        (ScaleAnimation := [2 \<mapsto> [''autoFrom'' \<mapsto> FBool True, ''reverse'' \<mapsto> FBool True,
                                    ''toX'' \<mapsto> FNum 9, ''loop'' \<mapsto> FBool True]])\<rparr>\<rparr>"

text \<open>The state with another template reference in the schema of one controlled entity.\<close>

definition with_template :: "nat \<Rightarrow> eid_ref \<Rightarrow> state \<Rightarrow> state" where
  "with_template eid r st =
     st\<lparr>schemaAttribute := (schemaAttribute st)
           (eid := (schemaAttribute st eid)\<lparr>entityToSpawn := r\<rparr>)\<rparr>"

text \<open>
  The specification's own enumeration of the registry, phrase by phrase, with the number
  of kinds each phrase names. It follows the specification's words, not the source, and
  is only compared with the source's list.
\<close>

definition spec_enumeration :: "(string \<times> nat) list" where
  "spec_enumeration =
     [(''position'', 1), (''orientation'', 1), (''scale'', 1), (''shadow flag'', 1),
      (''box geometry'', 1), (''material'', 1), (''the four animation kinds'', 4),
      (''custom-property/vector animations'', 2), (''follow/look-at behaviors'', 2),
      (''model reference'', 1), (''collider'', 1), (''particle emitter'', 1),
      (''UI'', 1), (''audio'', 1)]"

section \<open>The world operations and the cloner\<close>

lemma component_set_simps:
  "next_eid (component_set c w e d) = next_eid w"
  "defaults (component_set c w e d) = defaults w"
  "comps (component_set c w e d) k x =
     (if k = c \<and> x = e then Some (current_props c w e ++ d) else comps w k x)"
  by (simp_all add: component_set_def)

lemma clone_one_simps:
  "next_eid (clone_one s t c w) = next_eid w"
  "defaults (clone_one s t c w) = defaults w"
  "comps (clone_one s t c w) k x =
     (if k = c \<and> x = t \<and> comps w c s \<noteq> None
      then map_option (\<lambda>p. current_props c w t ++ p) (comps w c s)
      else comps w k x)"
  by (auto simp: clone_one_def component_has_def component_get_def component_set_simps
           split: option.splits)

lemma clone_one_other:
  "k \<noteq> c \<Longrightarrow> current_props k (clone_one s t c w) x = current_props k w x"
  by (simp add: current_props_def clone_one_simps split: option.splits)

lemma fold_clone_next_eid:
  "next_eid (fold (clone_one s t) ks w) = next_eid w"
  by (induction ks arbitrary: w) (simp_all add: clone_one_simps)

lemma fold_clone_defaults:
  "defaults (fold (clone_one s t) ks w) = defaults w"
  by (induction ks arbitrary: w) (simp_all add: clone_one_simps)

text \<open>
  The loop of the cloner over any list of distinct components: a component of the list
  that the source has is assigned onto the target; everything else is as before.
\<close>

lemma fold_clone_comps:
  "distinct ks \<Longrightarrow>
   comps (fold (clone_one s t) ks w) k x =
     (if k \<in> set ks \<and> x = t \<and> comps w k s \<noteq> None
      then map_option (\<lambda>p. current_props k w t ++ p) (comps w k s)
      else comps w k x)"
proof (induction ks arbitrary: w)
  case Nil
  then show ?case by simp
next
  case (Cons c ks)
  then have d: "distinct ks" and nin: "c \<notin> set ks" by simp_all
  show ?case
  proof (cases "k = c")
    case True
    with nin have "k \<notin> set ks" by simp
    then show ?thesis
      using Cons.IH [OF d, of "clone_one s t c w"] True
      by (auto simp: clone_one_simps)
  next
    case False
    then show ?thesis
      using Cons.IH [OF d, of "clone_one s t c w"]
      by (auto simp: clone_one_simps clone_one_other)
  qed
qed

lemma distinct_componentsForClone: "distinct componentsForClone"
  by (simp add: componentsForClone_def)

lemma createEntity_simps:
  "fst (createEntity w) = next_eid w"
  "snd (createEntity w) = w\<lparr>next_eid := Suc (next_eid w)\<rparr>"
  by (simp_all add: createEntity_def)

lemma cloneComponents_next_eid: "next_eid (cloneComponents s t w) = next_eid w"
  by (simp add: cloneComponents_def fold_clone_next_eid)

lemma cloneComponents_defaults: "defaults (cloneComponents s t w) = defaults w"
  by (simp add: cloneComponents_def fold_clone_defaults)

lemma cloneComponents_comps:
  "comps (cloneComponents s t w) k x =
     (if k \<in> set componentsForClone \<and> x = t \<and> comps w k s \<noteq> None
      then map_option (\<lambda>p. current_props k w t ++ p) (comps w k s)
      else comps w k x)"
  unfolding cloneComponents_def
  by (rule fold_clone_comps [OF distinct_componentsForClone])

section \<open>The three outcomes of the touch handler\<close>

lemma listen_handler_ignored:
  "dateNow e - lastInteractionTime (dataAttribute st eid) \<le> 500 \<Longrightarrow>
   listen_handler eid e st = st"
  by (simp add: listen_handler_def)

lemma listen_handler_missing:
  "\<not> dateNow e - lastInteractionTime (dataAttribute st eid) \<le> 500 \<Longrightarrow>
   truthy_eid (entityToSpawn (schemaAttribute st eid)) = None \<Longrightarrow>
   listen_handler eid e st =
     (stamp eid (dateNow e) st)\<lparr>console := console st @ [missing_template_message]\<rparr>"
  by (simp add: listen_handler_def stamp_def Let_def)

lemma listen_handler_spawned:
  "\<not> dateNow e - lastInteractionTime (dataAttribute st eid) \<le> 500 \<Longrightarrow>
   truthy_eid (entityToSpawn (schemaAttribute st eid)) = Some t \<Longrightarrow>
   listen_handler eid e st =
     (stamp eid (dateNow e) st)\<lparr>world := spawn_world (schemaAttribute st eid) e t (world st)\<rparr>"
  by (simp add: listen_handler_def stamp_def spawn_world_def createEntity_def Let_def)

lemma spawn_world_next_eid: "next_eid (spawn_world cfg e t w) = Suc (next_eid w)"
  by (simp add: spawn_world_def component_set_simps cloneComponents_next_eid)

lemma spawn_world_defaults: "defaults (spawn_world cfg e t w) = defaults w"
  by (simp add: spawn_world_def component_set_simps cloneComponents_defaults)

lemma handler_cases:
  obtains (ignored) "dateNow e - lastInteractionTime (dataAttribute st eid) \<le> 500"
      "listen_handler eid e st = st"
  | (missing) "500 < dateNow e - lastInteractionTime (dataAttribute st eid)"
      "truthy_eid (entityToSpawn (schemaAttribute st eid)) = None"
      "listen_handler eid e st =
         (stamp eid (dateNow e) st)\<lparr>console := console st @ [missing_template_message]\<rparr>"
  | (spawned) t where "500 < dateNow e - lastInteractionTime (dataAttribute st eid)"
      "truthy_eid (entityToSpawn (schemaAttribute st eid)) = Some t"
      "listen_handler eid e st =
         (stamp eid (dateNow e) st)\<lparr>world := spawn_world (schemaAttribute st eid) e t (world st)\<rparr>"
proof (cases "dateNow e - lastInteractionTime (dataAttribute st eid) \<le> 500")
  case True
  then show ?thesis using ignored listen_handler_ignored by blast
next
  case False
  show ?thesis
  proof (cases "truthy_eid (entityToSpawn (schemaAttribute st eid))")
    case None
    with False show ?thesis using missing listen_handler_missing by force
  next
    case (Some t)
    with False show ?thesis using spawned listen_handler_spawned by force
  qed
qed

lemma handler_schema: "schemaAttribute (listen_handler eid e st) = schemaAttribute st"
  by (cases eid e st rule: handler_cases) (simp_all add: stamp_def)

lemma handler_last:
  "lastInteractionTime (dataAttribute (listen_handler eid e st) eid) =
     (if dateNow e - lastInteractionTime (dataAttribute st eid) \<le> 500
      then lastInteractionTime (dataAttribute st eid) else dateNow e)"
  by (cases eid e st rule: handler_cases) (simp_all add: stamp_def)

lemma handler_next_eid:
  "next_eid (world (listen_handler eid e st)) =
     (if dateNow e - lastInteractionTime (dataAttribute st eid) \<le> 500
         \<or> truthy_eid (entityToSpawn (schemaAttribute st eid)) = None
      then next_eid (world st) else Suc (next_eid (world st)))"
  by (cases eid e st rule: handler_cases) (auto simp: stamp_def spawn_world_next_eid)

lemma armed0_simps:
  "world (armed0 r) = scene0"
  "schemaAttribute (armed0 r) x = \<lparr>entityToSpawn = r, minScale = 1, maxScale = 3\<rparr>"
  "lastInteractionTime (dataAttribute (armed0 r) x) = 0"
  "console (armed0 r) = []"
  by (simp_all add: armed0_def)

lemma tap_at_simps:
  "dateNow (tap_at n) = n" "worldPosition (tap_at n) = (1, 2, 3)" "mathRandom (tap_at n) = 1 / 2"
  by (simp_all add: tap_at_def)

section \<open>Debounce\<close>

lemma handler_last_mono:
  "lastInteractionTime (dataAttribute st eid)
     \<le> lastInteractionTime (dataAttribute (listen_handler eid e st) eid)"
  by (simp add: handler_last)

lemma spawn_times_after_last:
  "u \<in> set (spawn_times eid es st) \<Longrightarrow>
   500 < u - lastInteractionTime (dataAttribute st eid)"
proof (induction es arbitrary: st)
  case Nil
  then show ?case by simp
next
  case (Cons e es)
  let ?st' = "listen_handler eid e st"
  from Cons.prems consider
      (head) "u = dateNow e" "next_eid (world ?st') \<noteq> next_eid (world st)"
    | (tail) "u \<in> set (spawn_times eid es ?st')"
    by (auto split: if_splits)
  then show ?case
  proof cases
    case head
    then show ?thesis by (simp add: handler_next_eid split: if_splits)
  next
    case tail
    from Cons.IH [OF tail] handler_last_mono [of st eid e]
    show ?thesis by linarith
  qed
qed

lemma spawn_times_spaced:
  "sorted_wrt (\<lambda>a b. 500 < b - a) (spawn_times eid es st)"
proof (induction es arbitrary: st)
  case Nil
  then show ?case by simp
next
  case (Cons e es)
  let ?st' = "listen_handler eid e st"
  have tl: "sorted_wrt (\<lambda>a b. 500 < b - a) (spawn_times eid es ?st')"
    by (rule Cons.IH)
  show ?case
  proof (cases "next_eid (world ?st') \<noteq> next_eid (world st)")
    case True
    then have "lastInteractionTime (dataAttribute ?st' eid) = dateNow e"
      by (simp add: handler_next_eid handler_last split: if_splits)
    then have "\<forall>u\<in>set (spawn_times eid es ?st'). 500 < u - dateNow e"
      using spawn_times_after_last [of _ eid es ?st'] by auto
    with True tl show ?thesis by simp
  next
    case False
    with tl show ?thesis by simp
  qed
qed

text \<open>
  Claim C1. A touch that arrives when \<^verbatim>\<open>Date.now()\<close> minus the stored
  \<^verbatim>\<open>lastInteractionTime\<close> is at most 500 leaves the whole state as it was: the time
  stamp, the world (no entity is created) and the console (no error is reported). And
  in any sequence of touches on one controlled entity, from any state, the time stamps of
  two touches that created an entity differ by more than 500.
\<close>

theorem debounce:
  "(dateNow e - lastInteractionTime (dataAttribute st eid) \<le> 500 \<longrightarrow>
      listen_handler eid e st = st)
   \<and> (\<forall>i j. i < j \<longrightarrow> j < length (spawn_times eid es st) \<longrightarrow>
         500 < spawn_times eid es st ! j - spawn_times eid es st ! i)"
proof (intro conjI impI allI)
  assume "dateNow e - lastInteractionTime (dataAttribute st eid) \<le> 500"
  then show "listen_handler eid e st = st" by (rule listen_handler_ignored)
next
  fix i j
  assume "i < j" "j < length (spawn_times eid es st)"
  with spawn_times_spaced [of eid es st]
  show "500 < spawn_times eid es st ! j - spawn_times eid es st ! i"
    by (simp add: sorted_wrt_iff_nth_less)
qed

theorem debounce_witness:
  "dateNow (tap_at 1200) - lastInteractionTime
      (dataAttribute (listen_handler 1 (tap_at 1000) (armed0 (Eid 2))) 1) \<le> 500
   \<and> listen_handler 1 (tap_at 1200) (listen_handler 1 (tap_at 1000) (armed0 (Eid 2)))
       = listen_handler 1 (tap_at 1000) (armed0 (Eid 2))
   \<and> spawn_times 1 [tap_at 1000, tap_at 1200, tap_at 1600] (armed0 (Eid 2)) = [1000, 1600]
   \<and> 500 < spawn_times 1 [tap_at 1000, tap_at 1200, tap_at 1600] (armed0 (Eid 2)) ! 1
            - spawn_times 1 [tap_at 1000, tap_at 1200, tap_at 1600] (armed0 (Eid 2)) ! 0"
proof -
  have a: "dateNow (tap_at 1200) - lastInteractionTime
      (dataAttribute (listen_handler 1 (tap_at 1000) (armed0 (Eid 2))) 1) \<le> 500"
    by (simp add: handler_last armed0_simps tap_at_simps)
  have b: "spawn_times 1 [tap_at 1000, tap_at 1200, tap_at 1600] (armed0 (Eid 2)) = [1000, 1600]"
    by (simp add: handler_next_eid handler_last handler_schema armed0_simps tap_at_simps)
  from a b
    debounce [of "tap_at 1200" "listen_handler 1 (tap_at 1000) (armed0 (Eid 2))" 1 "[]"]
    debounce [of "tap_at 1000" "armed0 (Eid 2)" 1 "[tap_at 1000, tap_at 1200, tap_at 1600]"]
  show ?thesis by simp
qed

section \<open>Accepted touches\<close>

lemma stamp_simps:
  "world (stamp eid n st) = world st"
  "schemaAttribute (stamp eid n st) = schemaAttribute st"
  "console (stamp eid n st) = console st"
  "lastInteractionTime (dataAttribute (stamp eid n st) eid) = n"
  by (simp_all add: stamp_def)

text \<open>
  Claim C2. A touch that passes the debounce test (more than 500 ms after the stored
  time stamp) leaves \<^verbatim>\<open>lastInteractionTime\<close> equal to the current time, whatever the
  template reference is: the write comes before the test of the reference in the
  handler. When the reference is not truthy, the handler returns the state with the new
  time stamp and the error message appended to the console, and nothing else changed: the
  world is the same, so no entity was created. The handler has no statement that throws
  on this path, and the model returns a state on every path. A second touch at most
  500 ms after the first is then ignored: the state stays as the first touch left it.
\<close>

theorem accepted_tap_stamps:
  "500 < dateNow e - lastInteractionTime (dataAttribute st eid) \<Longrightarrow>
   lastInteractionTime (dataAttribute (listen_handler eid e st) eid) = dateNow e
   \<and> (truthy_eid (entityToSpawn (schemaAttribute st eid)) = None \<longrightarrow>
        listen_handler eid e st =
          (stamp eid (dateNow e) st)\<lparr>console := console st @ [missing_template_message]\<rparr>
        \<and> world (listen_handler eid e st) = world st
        \<and> console (listen_handler eid e st) = console st @ [missing_template_message]
        \<and> (\<forall>e2. dateNow e2 - dateNow e \<le> 500 \<longrightarrow>
              listen_handler eid e2 (listen_handler eid e st) = listen_handler eid e st))"
proof (intro conjI impI allI)
  assume acc: "500 < dateNow e - lastInteractionTime (dataAttribute st eid)"
  then show stamped: "lastInteractionTime (dataAttribute (listen_handler eid e st) eid) = dateNow e"
    by (simp add: handler_last)
  assume none: "truthy_eid (entityToSpawn (schemaAttribute st eid)) = None"
  from acc none show eq: "listen_handler eid e st =
      (stamp eid (dateNow e) st)\<lparr>console := console st @ [missing_template_message]\<rparr>"
    by (simp add: listen_handler_missing)
  then show "world (listen_handler eid e st) = world st"
    by (simp add: stamp_simps)
  from eq show "console (listen_handler eid e st) = console st @ [missing_template_message]"
    by simp
  fix e2 :: tap
  assume "dateNow e2 - dateNow e \<le> 500"
  with stamped show "listen_handler eid e2 (listen_handler eid e st) = listen_handler eid e st"
    by (simp add: listen_handler_ignored)
qed

theorem accepted_tap_stamps_witness:
  "500 < dateNow (tap_at 1000) - lastInteractionTime (dataAttribute (armed0 NoEid) 1)
   \<and> truthy_eid (entityToSpawn (schemaAttribute (armed0 NoEid) 1)) = None
   \<and> dateNow (tap_at 1400) - dateNow (tap_at 1000) \<le> 500
   \<and> lastInteractionTime (dataAttribute (listen_handler 1 (tap_at 1000) (armed0 NoEid)) 1) = 1000
   \<and> next_eid (world (listen_handler 1 (tap_at 1000) (armed0 NoEid))) = 10
   \<and> console (listen_handler 1 (tap_at 1000) (armed0 NoEid)) = [missing_template_message]
   \<and> listen_handler 1 (tap_at 1400) (listen_handler 1 (tap_at 1000) (armed0 NoEid))
       = listen_handler 1 (tap_at 1000) (armed0 NoEid)"
proof -
  have a: "500 < dateNow (tap_at 1000) - lastInteractionTime (dataAttribute (armed0 NoEid) 1)"
    by (simp add: armed0_simps tap_at_simps)
  have b: "truthy_eid (entityToSpawn (schemaAttribute (armed0 NoEid) 1)) = None"
    by (simp add: armed0_simps)
  have c: "dateNow (tap_at 1400) - dateNow (tap_at 1000) \<le> 500"
    by (simp add: tap_at_simps)
  note T = accepted_tap_stamps [OF a]
  from T have t1: "lastInteractionTime
      (dataAttribute (listen_handler 1 (tap_at 1000) (armed0 NoEid)) 1) = dateNow (tap_at 1000)"
    by blast
  from T b have t2: "world (listen_handler 1 (tap_at 1000) (armed0 NoEid)) = world (armed0 NoEid)"
    by blast
  from T b have t3: "console (listen_handler 1 (tap_at 1000) (armed0 NoEid))
      = console (armed0 NoEid) @ [missing_template_message]"
    by blast
  from T b c have t4: "listen_handler 1 (tap_at 1400) (listen_handler 1 (tap_at 1000) (armed0 NoEid))
       = listen_handler 1 (tap_at 1000) (armed0 NoEid)"
    by blast
  from a b c t1 t2 t3 t4 show ?thesis
    by (simp add: armed0_simps tap_at_simps scene0_def)
qed

section \<open>The cloner's contract\<close>

lemma map_add_covered: "dom m \<subseteq> dom p \<Longrightarrow> m ++ p = p"
proof
  fix x
  assume sub: "dom m \<subseteq> dom p"
  show "(m ++ p) x = p x"
  proof (cases "p x")
    case None
    then have "x \<notin> dom m" using sub by auto
    with None show ?thesis by (simp add: map_add_def domIff)
  next
    case (Some v)
    then show ?thesis by (simp add: map_add_def)
  qed
qed

text \<open>
  Claim C3. \<open>cloneComponents\<close> is the loop over \<open>componentsForClone\<close> in list order.
  After it: the entity counter and the component defaults are as before (no entity is
  created); every entity other than the target has the component values it had; on the
  target, a component that is not in the registry or that the source does not have is as
  it was; and a registry component that the source has with value \<open>p\<close> has, on the
  target, the properties of \<open>p\<close> assigned over what the target had (or over the
  component's defaults when it had none). Where the target's earlier properties are
  among those of \<open>p\<close>, as they are when both values carry the properties of the same
  component schema, the target's value is \<open>p\<close> itself: the earlier value is
  overwritten.
\<close>

theorem cloneComponents_copies:
  "next_eid (cloneComponents s t w) = next_eid w
   \<and> defaults (cloneComponents s t w) = defaults w
   \<and> (\<forall>k x. x \<noteq> t \<longrightarrow> comps (cloneComponents s t w) k x = comps w k x)
   \<and> (\<forall>k. k \<notin> set componentsForClone \<or> comps w k s = None \<longrightarrow>
         comps (cloneComponents s t w) k t = comps w k t)
   \<and> (\<forall>k p. k \<in> set componentsForClone \<longrightarrow> comps w k s = Some p \<longrightarrow>
         comps (cloneComponents s t w) k t = Some (current_props k w t ++ p)
         \<and> (dom (current_props k w t) \<subseteq> dom p \<longrightarrow>
              comps (cloneComponents s t w) k t = Some p))"
proof (intro conjI allI impI)
  show "next_eid (cloneComponents s t w) = next_eid w"
    by (rule cloneComponents_next_eid)
  show "defaults (cloneComponents s t w) = defaults w"
    by (rule cloneComponents_defaults)
next
  fix k x
  assume "x \<noteq> t"
  then show "comps (cloneComponents s t w) k x = comps w k x"
    by (simp add: cloneComponents_comps)
next
  fix k
  assume "k \<notin> set componentsForClone \<or> comps w k s = None"
  then show "comps (cloneComponents s t w) k t = comps w k t"
    by (auto simp: cloneComponents_comps)
next
  fix k p
  assume k: "k \<in> set componentsForClone" and p: "comps w k s = Some p"
  then show assigned: "comps (cloneComponents s t w) k t = Some (current_props k w t ++ p)"
    by (simp add: cloneComponents_comps)
  assume "dom (current_props k w t) \<subseteq> dom p"
  with assigned show "comps (cloneComponents s t w) k t = Some p"
    by (simp add: map_add_covered)
qed

lemma scene0_simps:
  "next_eid scene0 = 10"
  "defaults scene0 c = Map.empty"
  "comps scene0 Position 2 = Some [''x'' \<mapsto> FNum 5, ''y'' \<mapsto> FNum 6, ''z'' \<mapsto> FNum 7]"
  "comps scene0 Position 4 = Some [''x'' \<mapsto> FNum 0, ''y'' \<mapsto> FNum 0, ''z'' \<mapsto> FNum 0]"
  "comps scene0 Material 2 = Some [''color'' \<mapsto> FStr ''red'']"
  "comps scene0 Material 4 = None"
  "comps scene0 Audio 2 = None"
  "comps scene0 Audio 4 = Some [''volume'' \<mapsto> FNum 1]"
  "comps scene0 Disabled x = None"
  by (simp_all add: scene0_def)

theorem cloneComponents_copies_witness:
  "Position \<in> set componentsForClone
   \<and> comps scene0 Position 2 = Some [''x'' \<mapsto> FNum 5, ''y'' \<mapsto> FNum 6, ''z'' \<mapsto> FNum 7]
   \<and> dom (current_props Position scene0 4)
        \<subseteq> dom [''x'' \<mapsto> FNum 5, ''y'' \<mapsto> FNum 6, ''z'' \<mapsto> FNum 7]
   \<and> comps (cloneComponents 2 4 scene0) Position 4
        = Some [''x'' \<mapsto> FNum 5, ''y'' \<mapsto> FNum 6, ''z'' \<mapsto> FNum 7]
   \<and> Audio \<in> set componentsForClone \<and> comps scene0 Audio 2 = None
   \<and> comps (cloneComponents 2 4 scene0) Audio 4 = Some [''volume'' \<mapsto> FNum 1]
   \<and> (3::nat) \<noteq> 4
   \<and> comps (cloneComponents 2 4 scene0) Material 3 = comps scene0 Material 3
   \<and> next_eid (cloneComponents 2 4 scene0) = 10"
proof -
  have a: "Position \<in> set componentsForClone" "Audio \<in> set componentsForClone"
    by (simp_all add: componentsForClone_def)
  have b: "dom (current_props Position scene0 4)
        \<subseteq> dom [''x'' \<mapsto> FNum 5, ''y'' \<mapsto> FNum 6, ''z'' \<mapsto> FNum 7]"
    by (simp add: current_props_def scene0_simps)
  have c: "comps scene0 Position 2
      = Some [''x'' \<mapsto> FNum 5, ''y'' \<mapsto> FNum 6, ''z'' \<mapsto> FNum 7]"
    "comps scene0 Audio 2 = None"
    by (simp_all add: scene0_simps)
  note T = cloneComponents_copies [of 2 4 scene0]
  from T a(1) c(1) b have t1: "comps (cloneComponents 2 4 scene0) Position 4
        = Some [''x'' \<mapsto> FNum 5, ''y'' \<mapsto> FNum 6, ''z'' \<mapsto> FNum 7]"
    by blast
  from T c(2) have t2: "comps (cloneComponents 2 4 scene0) Audio 4 = comps scene0 Audio 4"
    by blast
  have "(3::nat) \<noteq> 4" by simp
  with T have t3: "comps (cloneComponents 2 4 scene0) Material 3 = comps scene0 Material 3"
    by blast
  from T have t4: "next_eid (cloneComponents 2 4 scene0) = next_eid scene0"
    by blast
  from a b c t1 t2 t3 t4 show ?thesis
    by (simp add: scene0_simps)
qed

section \<open>The spawned entity\<close>

lemma spawn_world_Position:
  "comps (spawn_world cfg e t w) Position (next_eid w) =
     Some (current_props Position
             (cloneComponents t (next_eid w) (w\<lparr>next_eid := Suc (next_eid w)\<rparr>)) (next_eid w)
           ++ vec3_props (worldPosition e))"
  by (simp add: spawn_world_def component_set_simps)

lemma spawn_world_ScaleAnimation:
  "comps (spawn_world cfg e t w) ScaleAnimation (next_eid w) =
     Some (current_props ScaleAnimation
             (component_set Position
                (cloneComponents t (next_eid w) (w\<lparr>next_eid := Suc (next_eid w)\<rparr>))
                (next_eid w) (vec3_props (worldPosition e))) (next_eid w)
           ++ scale_animation_props (randomScale cfg (mathRandom e)))"
  by (simp add: spawn_world_def component_set_simps)

lemma scale_animation_props_fields:
  "(m ++ scale_animation_props s) ''fromX'' = Some (FNum 0)"
  "(m ++ scale_animation_props s) ''fromY'' = Some (FNum 0)"
  "(m ++ scale_animation_props s) ''fromZ'' = Some (FNum 0)"
  "(m ++ scale_animation_props s) ''toX'' = Some (FNum s)"
  "(m ++ scale_animation_props s) ''toY'' = Some (FNum s)"
  "(m ++ scale_animation_props s) ''toZ'' = Some (FNum s)"
  "(m ++ scale_animation_props s) ''duration'' = Some (FNum 400)"
  "(m ++ scale_animation_props s) ''loop'' = Some (FBool False)"
  "(m ++ scale_animation_props s) ''easeOut'' = Some (FBool True)"
  "(m ++ scale_animation_props s) ''easingFunction'' = Some (FStr ''Quadratic'')"
  by (simp_all add: scale_animation_props_def map_add_def)

lemma vec3_props_fields:
  "(m ++ vec3_props (a, b, c)) ''x'' = Some (FNum a)"
  "(m ++ vec3_props (a, b, c)) ''y'' = Some (FNum b)"
  "(m ++ vec3_props (a, b, c)) ''z'' = Some (FNum c)"
  by (simp_all add: map_add_def)

subsection \<open>Binary64 rounding\<close>

lemma pow2_pos: "0 < pow2 k"
  by (simp add: pow2_def)

lemma pow2_add: "pow2 (a + b) = pow2 a * pow2 b"
  by (simp add: pow2_def power_int_add)

lemma pow2_mono: "a \<le> b \<Longrightarrow> pow2 a \<le> pow2 b"
  by (simp add: pow2_def power_int_increasing)

lemma pow2_less: "a < b \<Longrightarrow> pow2 a < pow2 b"
  by (simp add: pow2_def power_int_strict_increasing)

lemma pow2_less_cancel: "pow2 a < pow2 b \<Longrightarrow> a < b"
  by (rule ccontr) (use pow2_mono [of b a] in simp)

lemma pow2_of_nat: "pow2 (int n) = of_int (2 ^ n)"
  by (simp add: pow2_def)

lemma floor_log2_iff:
  assumes "0 < x"
  shows "(\<lfloor>log 2 x\<rfloor> = k) = (pow2 k \<le> x \<and> x < pow2 (k + 1))"
proof -
  have a: "2 powr real_of_int k = pow2 k"
    unfolding pow2_def by (rule powr_real_of_int') simp_all
  have b: "2 powr real_of_int (k + 1) = pow2 (k + 1)"
    unfolding pow2_def by (rule powr_real_of_int') simp_all
  show ?thesis
    unfolding a [symmetric] b [symmetric]
    by (rule floor_log_eq_powr_iff) (use assms in simp_all)
qed

lemma floor_log2_bounds:
  assumes "0 < x"
  shows "pow2 \<lfloor>log 2 x\<rfloor> \<le> x" and "x < pow2 (\<lfloor>log 2 x\<rfloor> + 1)"
  using floor_log2_iff [OF assms, of "\<lfloor>log 2 x\<rfloor>"] by simp_all

lemma binade_ge: "- 1022 \<le> binade x"
  by (simp add: binade_def)

lemma binade_minus: "binade (- x) = binade x"
  by (simp add: binade_def)

lemma binade_eq:
  assumes "pow2 k \<le> x" "x < pow2 (k + 1)" "- 1022 \<le> k"
  shows "binade x = k"
proof -
  have pos: "0 < x" using assms(1) pow2_pos [of k] by linarith
  then have "\<lfloor>log 2 x\<rfloor> = k" using assms by (simp add: floor_log2_iff)
  with pos assms(3) show ?thesis by (simp add: binade_def)
qed

lemma binade_normal:
  assumes "pow2 (- 1022) \<le> x"
  shows "pow2 (binade x) \<le> x" and "x < pow2 (binade x + 1)"
proof -
  have pos: "0 < x" using assms pow2_pos [of "- 1022"] by linarith
  have "- 1022 \<le> \<lfloor>log 2 x\<rfloor>"
  proof (rule ccontr)
    assume "\<not> - 1022 \<le> \<lfloor>log 2 x\<rfloor>"
    then have "\<lfloor>log 2 x\<rfloor> + 1 \<le> - 1022" by linarith
    then have "pow2 (\<lfloor>log 2 x\<rfloor> + 1) \<le> pow2 (- 1022)"
      by (rule pow2_mono)
    with floor_log2_bounds(2) [OF pos] assms show False by linarith
  qed
  then have "binade x = \<lfloor>log 2 x\<rfloor>"
    using pos by (simp add: binade_def)
  with floor_log2_bounds [OF pos]
  show "pow2 (binade x) \<le> x" and "x < pow2 (binade x + 1)" by simp_all
qed

lemma binade_subnormal:
  assumes "0 \<le> x" "x < pow2 (- 1022)"
  shows "binade x = - 1022"
proof (cases "x = 0")
  case True
  then show ?thesis by (simp add: binade_def)
next
  case False
  with assms have pos: "0 < x" by simp
  have "\<lfloor>log 2 x\<rfloor> < - 1022"
  proof -
    have "pow2 \<lfloor>log 2 x\<rfloor> < pow2 (- 1022)"
      using floor_log2_bounds(1) [OF pos] assms(2) by linarith
    then show ?thesis by (rule pow2_less_cancel)
  qed
  then show ?thesis using pos by (simp add: binade_def)
qed

lemma binade_mono:
  assumes "0 \<le> x" "x \<le> y"
  shows "binade x \<le> binade y"
proof (cases "x < pow2 (- 1022)")
  case True
  with assms have "binade x = - 1022" by (simp add: binade_subnormal)
  then show ?thesis using binade_ge [of y] by simp
next
  case False
  then have nx: "pow2 (- 1022) \<le> x" by simp
  then have ny: "pow2 (- 1022) \<le> y" using assms by linarith
  have "pow2 (binade x) < pow2 (binade y + 1)"
    using binade_normal(1) [OF nx] binade_normal(2) [OF ny] assms by linarith
  then have "binade x < binade y + 1" by (rule pow2_less_cancel)
  then show ?thesis by simp
qed

lemma rne_of_int: "rne (of_int n) = n"
  by (simp add: rne_def)

lemma rne_bounds: "\<lfloor>t\<rfloor> \<le> rne t" "rne t \<le> \<lfloor>t\<rfloor> + 1"
  by (simp_all add: rne_def Let_def)

lemma rne_mono:
  assumes "s \<le> t"
  shows "rne s \<le> rne t"
proof (cases "\<lfloor>s\<rfloor> = \<lfloor>t\<rfloor>")
  case True
  with assms show ?thesis
    by (auto simp: rne_def Let_def)
next
  case False
  with assms have "\<lfloor>s\<rfloor> < \<lfloor>t\<rfloor>"
    using floor_mono [of s t] by linarith
  with rne_bounds(2) [of s] rne_bounds(1) [of t] show ?thesis by linarith
qed

lemma rne_le: "t \<le> of_int m \<Longrightarrow> rne t \<le> m"
  using rne_mono [of t "of_int m"] by (simp add: rne_of_int)

lemma rne_ge: "of_int m \<le> t \<Longrightarrow> m \<le> rne t"
  using rne_mono [of "of_int m" t] by (simp add: rne_of_int)

lemma rne_below_half:
  assumes "of_int m \<le> t" "t < of_int m + 1 / 2"
  shows "rne t = m"
proof -
  from assms have "\<lfloor>t\<rfloor> = m" by linarith
  with assms show ?thesis by (simp add: rne_def Let_def)
qed

lemma rne_up:
  assumes "t < of_int (rne t)"
  shows "rne t = \<lfloor>t\<rfloor> + 1" and "1 / 2 \<le> t - of_int \<lfloor>t\<rfloor>"
proof -
  have ne: "rne t \<noteq> \<lfloor>t\<rfloor>"
  proof
    assume "rne t = \<lfloor>t\<rfloor>"
    with assms have "t < of_int \<lfloor>t\<rfloor>" by simp
    with of_int_floor_le [of t] show False by linarith
  qed
  with rne_bounds [of t] show "rne t = \<lfloor>t\<rfloor> + 1" by linarith
  from ne show "1 / 2 \<le> t - of_int \<lfloor>t\<rfloor>"
    by (auto simp: rne_def Let_def split: if_splits)
qed

lemma rne_half: "rne (of_int m + 1 / 2) = (if even m then m else m + 1)"
proof -
  have "\<lfloor>of_int m + 1 / 2 :: real\<rfloor> = m" by linarith
  then show ?thesis by (simp add: rne_def Let_def)
qed

lemma quantum_pos: "0 < quantum x"
  by (simp add: quantum_def pow2_pos)

lemma quantum_minus: "quantum (- x) = quantum x"
  by (simp add: quantum_def binade_minus)

lemma fl_minus: "fl (- x) = - fl x"
  by (simp add: fl_def quantum_minus sgn_minus)

lemma fl_nonneg_eq: "0 \<le> x \<Longrightarrow> fl x = of_int (rne (x / quantum x)) * quantum x"
  by (cases "x = 0") (simp_all add: fl_def rne_def)

lemma fl_0: "fl 0 = 0"
  by (simp add: fl_def)

lemma fl_nonneg:
  assumes "0 \<le> x"
  shows "0 \<le> fl x"
proof -
  have "0 \<le> x / quantum x" using assms quantum_pos [of x] by simp
  then have "0 \<le> rne (x / quantum x)" using rne_ge [of 0] by simp
  then show ?thesis using quantum_pos [of x] by (simp add: fl_nonneg_eq [OF assms])
qed

lemma quantum_times:
  "of_int (2 ^ 52) * quantum x = pow2 (binade x)"
  "of_int (2 ^ 53) * quantum x = pow2 (binade x + 1)"
proof -
  have "pow2 (binade x) = pow2 (52 + (binade x - 52))" by simp
  also have "\<dots> = pow2 52 * quantum x"
    unfolding quantum_def by (rule pow2_add)
  finally show "of_int (2 ^ 52) * quantum x = pow2 (binade x)"
    using pow2_of_nat [of 52] by simp
  have eq: "binade x + 1 = 53 + (binade x - 52)" by linarith
  have "pow2 (binade x + 1) = pow2 53 * quantum x"
    unfolding quantum_def by (subst eq) (rule pow2_add)
  then show "of_int (2 ^ 53) * quantum x = pow2 (binade x + 1)"
    using pow2_of_nat [of 53] by simp
qed

lemma fl_le_times:
  assumes "0 \<le> x" "x \<le> of_int m * quantum x"
  shows "fl x \<le> of_int m * quantum x"
proof -
  have "x / quantum x \<le> of_int m"
    using assms(2) quantum_pos [of x] by (simp add: pos_divide_le_eq)
  then have "rne (x / quantum x) \<le> m" by (rule rne_le)
  then have "of_int (rne (x / quantum x)) * quantum x \<le> of_int m * quantum x"
    using quantum_pos [of x] by (intro mult_right_mono) simp_all
  then show ?thesis by (simp add: fl_nonneg_eq [OF assms(1)])
qed

lemma fl_ge_times:
  assumes "0 \<le> x" "of_int m * quantum x \<le> x"
  shows "of_int m * quantum x \<le> fl x"
proof -
  have "of_int m \<le> x / quantum x"
    using assms(2) quantum_pos [of x] by (simp add: pos_le_divide_eq)
  then have "m \<le> rne (x / quantum x)" by (rule rne_ge)
  then have "of_int m * quantum x \<le> of_int (rne (x / quantum x)) * quantum x"
    using quantum_pos [of x] by (intro mult_right_mono) simp_all
  then show ?thesis by (simp add: fl_nonneg_eq [OF assms(1)])
qed

lemma fl_normal_bounds:
  assumes "pow2 (- 1022) \<le> x"
  shows "pow2 (binade x) \<le> fl x" and "fl x \<le> pow2 (binade x + 1)"
proof -
  have pos: "0 \<le> x" using assms pow2_pos [of "- 1022"] by linarith
  have "of_int (2 ^ 52) * quantum x \<le> fl x"
    using pos binade_normal(1) [OF assms] by (intro fl_ge_times) (simp_all only: quantum_times)
  then show "pow2 (binade x) \<le> fl x" by (simp only: quantum_times)
  have "fl x \<le> of_int (2 ^ 53) * quantum x"
    using pos binade_normal(2) [OF assms] by (intro fl_le_times) (simp_all only: quantum_times)
  then show "fl x \<le> pow2 (binade x + 1)" by (simp only: quantum_times)
qed

lemma fl_subnormal_bound:
  assumes "0 \<le> x" "x < pow2 (- 1022)"
  shows "fl x \<le> pow2 (- 1022)"
proof -
  have e: "binade x = - 1022" using assms by (rule binade_subnormal)
  have "x \<le> of_int (2 ^ 52) * quantum x"
    using assms(2) e by (simp only: quantum_times)
  with assms(1) have "fl x \<le> of_int (2 ^ 52) * quantum x" by (rule fl_le_times)
  then show ?thesis using e by (simp only: quantum_times)
qed

lemma fl_mono_nonneg:
  assumes "0 \<le> x" "x \<le> y"
  shows "fl x \<le> fl y"
proof (cases "binade x = binade y")
  case True
  then have q: "quantum x = quantum y" by (simp add: quantum_def)
  have "x / quantum y \<le> y / quantum y"
    using assms quantum_pos [of y] by (simp add: divide_right_mono)
  then have "rne (x / quantum y) \<le> rne (y / quantum y)" by (rule rne_mono)
  then have "of_int (rne (x / quantum y)) * quantum y \<le> of_int (rne (y / quantum y)) * quantum y"
    using quantum_pos [of y] by (intro mult_right_mono) simp_all
  with assms q show ?thesis by (simp add: fl_nonneg_eq)
next
  case False
  with binade_mono [OF assms] have lt: "binade x < binade y" by simp
  have ny: "pow2 (- 1022) \<le> y"
  proof (rule ccontr)
    assume "\<not> pow2 (- 1022) \<le> y"
    with assms have "binade y = - 1022" by (intro binade_subnormal) simp_all
    with lt binade_ge [of x] show False by simp
  qed
  have "fl x \<le> pow2 (binade x + 1)"
  proof (cases "pow2 (- 1022) \<le> x")
    case True
    then show ?thesis by (rule fl_normal_bounds(2))
  next
    case False
    with assms have "fl x \<le> pow2 (- 1022)" by (intro fl_subnormal_bound) simp_all
    also have "\<dots> \<le> pow2 (binade x + 1)"
      using binade_ge [of x] by (intro pow2_mono) linarith
    finally show ?thesis .
  qed
  also have "\<dots> \<le> pow2 (binade y)"
    using lt by (intro pow2_mono) linarith
  also have "\<dots> \<le> fl y" using ny by (rule fl_normal_bounds(1))
  finally show ?thesis .
qed

lemma fl_mono:
  assumes "x \<le> y"
  shows "fl x \<le> fl y"
proof (cases "0 \<le> x")
  case True
  from True assms show ?thesis by (rule fl_mono_nonneg)
next
  case False
  then have x: "x < 0" by simp
  show ?thesis
  proof (cases "0 \<le> y")
    case True
    have "fl (- x) \<ge> 0" using x by (intro fl_nonneg) simp
    then have "fl x \<le> 0" by (simp add: fl_minus)
    with fl_nonneg [OF True] show ?thesis by linarith
  next
    case False
    then have "fl (- y) \<le> fl (- x)" using assms by (intro fl_mono_nonneg) simp_all
    then show ?thesis by (simp add: fl_minus)
  qed
qed

text \<open>Fixed points: an integer of at most 53 bits times a power of two from 2^-1074 up.\<close>

lemma fl_fix_nonneg:
  assumes x: "x = of_int m * pow2 k" and m: "0 \<le> m" "m \<le> 2 ^ 53" and k: "- 1074 \<le> k"
  shows "fl x = x"
proof -
  have pos: "0 \<le> x" using x m pow2_pos [of k] by simp
  let ?e = "binade x"
  have "\<exists>j. x = of_int j * quantum x"
  proof (cases "k \<le> ?e - 52")
    case False
    then have "0 \<le> k - (?e - 52)" by simp
    then obtain n where n: "k - (?e - 52) = int n"
      using nonneg_int_cases by blast
    have "k = int n + (?e - 52)" using n by linarith
    then have "pow2 k = pow2 (int n + (?e - 52))" by (rule arg_cong)
    also have "\<dots> = of_int (2 ^ n) * quantum x"
      unfolding quantum_def by (simp only: pow2_add pow2_of_nat)
    finally have "x = of_int (m * 2 ^ n) * quantum x" using x by simp
    then show ?thesis ..
  next
    case True
    show ?thesis
    proof (cases "k = ?e - 52")
      case True
      then have "x = of_int m * quantum x" using x by (simp add: quantum_def)
      then show ?thesis ..
    next
      case False
      with \<open>k \<le> ?e - 52\<close> have lt: "k + 53 \<le> ?e" by simp
      then have "- 1022 < ?e" using k by linarith
      have norm: "pow2 (- 1022) \<le> x"
      proof (rule ccontr)
        assume "\<not> pow2 (- 1022) \<le> x"
        with pos have "?e = - 1022" by (intro binade_subnormal) simp_all
        with \<open>- 1022 < ?e\<close> show False by simp
      qed
      have "x \<le> of_int (2 ^ 53) * pow2 k"
        using m(2) x pow2_pos [of k] by (simp add: mult_right_mono)
      also have "\<dots> = pow2 (53 + k)"
        by (simp only: pow2_add pow2_of_nat [symmetric]) simp
      also have "\<dots> \<le> pow2 ?e" using lt by (intro pow2_mono) linarith
      finally have "x \<le> pow2 ?e" .
      with binade_normal(1) [OF norm] have "x = pow2 ?e" by linarith
      then have "x = of_int (2 ^ 52) * quantum x" by (simp only: quantum_times)
      then show ?thesis ..
    qed
  qed
  then obtain j where j: "x = of_int j * quantum x" ..
  have "of_int j * quantum x / quantum x = (of_int j :: real)"
    using quantum_pos [of x] by simp
  then have "x / quantum x = of_int j" by (simp only: j [symmetric])
  then have "rne (x / quantum x) = j" by (simp add: rne_of_int)
  with j show ?thesis by (simp add: fl_nonneg_eq [OF pos])
qed

lemma fl_fix:
  assumes "x = of_int m * pow2 k" "\<bar>m\<bar> \<le> 2 ^ 53" "- 1074 \<le> k"
  shows "fl x = x"
proof (cases "0 \<le> m")
  case True
  with assms show ?thesis by (intro fl_fix_nonneg [of x m k]) simp_all
next
  case False
  with assms have "fl (- x) = - x"
    by (intro fl_fix_nonneg [of "- x" "- m" k]) simp_all
  then show ?thesis by (simp add: fl_minus)
qed

lemma fl_of_int: "\<bar>m\<bar> \<le> 2 ^ 53 \<Longrightarrow> fl (of_int m) = of_int m"
  using fl_fix [of "of_int m" m 0] pow2_of_nat [of 0] by simp

text \<open>Every rounded value is such a number, so rounding is idempotent.\<close>

lemma fl_shape_nonneg:
  assumes "0 \<le> x"
  shows "\<exists>m. fl x = of_int m * quantum x \<and> 0 \<le> m \<and> m \<le> 2 ^ 53"
proof -
  let ?m = "rne (x / quantum x)"
  have eq: "fl x = of_int ?m * quantum x" using assms by (rule fl_nonneg_eq)
  have "0 \<le> x / quantum x" using assms quantum_pos [of x] by simp
  then have lo: "0 \<le> ?m" using rne_ge [of 0] by simp
  have "fl x \<le> of_int (2 ^ 53) * quantum x"
  proof (cases "pow2 (- 1022) \<le> x")
    case True
    then show ?thesis using fl_normal_bounds(2) [of x] by (simp only: quantum_times)
  next
    case False
    with assms have "fl x \<le> pow2 (- 1022)" by (intro fl_subnormal_bound) simp_all
    also have "\<dots> \<le> pow2 (binade x + 1)"
      using binade_ge [of x] by (intro pow2_mono) linarith
    finally show ?thesis by (simp only: quantum_times)
  qed
  then have "of_int ?m * quantum x \<le> of_int (2 ^ 53) * quantum x" using eq by simp
  then have "(of_int ?m :: real) \<le> of_int (2 ^ 53)"
    using quantum_pos [of x] by (simp only: mult_le_cancel_right_pos)
  then have "?m \<le> 2 ^ 53" by (simp only: of_int_le_iff)
  with eq lo show ?thesis by blast
qed

lemma fl_idem: "fl (fl x) = fl x"
proof -
  have nn: "fl (fl y) = fl y" if "0 \<le> y" for y
  proof -
    from fl_shape_nonneg [OF that] obtain m
      where m: "fl y = of_int m * quantum y" "0 \<le> m" "m \<le> 2 ^ 53" by blast
    have "- 1074 \<le> binade y - 52" using binade_ge [of y] by linarith
    with m show ?thesis
      unfolding quantum_def by (intro fl_fix_nonneg [of "fl y" m "binade y - 52"]) simp_all
  qed
  show ?thesis
  proof (cases "0 \<le> x")
    case True
    then show ?thesis by (rule nn)
  next
    case False
    then have "fl (fl (- x)) = fl (- x)" by (intro nn) simp
    then show ?thesis by (simp add: fl_minus)
  qed
qed

lemma pow2_values:
  "pow2 0 = 1" "pow2 (- 1) = 1 / 2" "of_int (2 ^ 53) * pow2 (- 53) = 1"
  "of_int (2 ^ 52) * pow2 (- 1074) = pow2 (- 1022)"
proof -
  show "pow2 0 = 1" "pow2 (- 1) = 1 / 2" by (simp_all add: pow2_def)
  have "of_int (2 ^ 53) * pow2 (- 53) = pow2 (int 53 + (- 53))"
    by (simp only: pow2_add pow2_of_nat)
  then show "of_int (2 ^ 53) * pow2 (- 53) = 1" by (simp add: pow2_def)
  have "of_int (2 ^ 52) * pow2 (- 1074) = pow2 (int 52 + (- 1074))"
    by (simp only: pow2_add pow2_of_nat)
  then show "of_int (2 ^ 52) * pow2 (- 1074) = pow2 (- 1022)" by simp
qed

lemma binary64_grid:
  assumes "binary64 v"
  shows "\<exists>j. v = of_int j * pow2 (- 1074)"
proof -
  have nn: "\<exists>j. fl y = of_int j * pow2 (- 1074)" if "0 \<le> y" for y
  proof -
    from fl_shape_nonneg [OF that] obtain m where m: "fl y = of_int m * quantum y" by blast
    have "0 \<le> binade y + 1022" using binade_ge [of y] by linarith
    then obtain n where n: "binade y + 1022 = int n" using nonneg_int_cases by blast
    then have "binade y - 52 = int n + (- 1074)" by linarith
    then have "quantum y = pow2 (int n + (- 1074))" unfolding quantum_def by (rule arg_cong)
    also have "\<dots> = of_int (2 ^ n) * pow2 (- 1074)" by (simp only: pow2_add pow2_of_nat)
    finally have "fl y = of_int (m * 2 ^ n) * pow2 (- 1074)" using m by simp
    then show ?thesis ..
  qed
  show ?thesis
  proof (cases "0 \<le> v")
    case True
    from nn [OF True] assms show ?thesis by (simp add: binary64_def)
  next
    case False
    then have "0 \<le> - v" by simp
    from nn [OF this] obtain j where "fl (- v) = of_int j * pow2 (- 1074)" ..
    with assms have "v = of_int (- j) * pow2 (- 1074)" by (simp add: binary64_def fl_minus)
    then show ?thesis ..
  qed
qed

lemma fl_sub_subnormal:
  assumes "binary64 a" "binary64 b" "0 \<le> b - a" "b - a < pow2 (- 1022)"
  shows "fl (b - a) = b - a"
proof -
  from binary64_grid [OF assms(1)] obtain i where i: "a = of_int i * pow2 (- 1074)" ..
  from binary64_grid [OF assms(2)] obtain j where j: "b = of_int j * pow2 (- 1074)" ..
  have eq: "b - a = of_int (j - i) * pow2 (- 1074)"
    using i j by (simp add: algebra_simps)
  have p: "0 < pow2 (- 1074)" by (rule pow2_pos)
  have "0 \<le> of_int (j - i) * pow2 (- 1074)" using assms(3) eq by simp
  then have lo: "0 \<le> j - i"
    using p by (simp add: zero_le_mult_iff)
  have "of_int (j - i) * pow2 (- 1074) < of_int (2 ^ 52) * pow2 (- 1074)"
    using assms(4) eq by (simp only: pow2_values)
  then have "(of_int (j - i) :: real) < of_int (2 ^ 52)"
    using p by (simp only: mult_less_cancel_right_pos)
  then have "j - i < 2 ^ 52" by (simp only: of_int_less_iff)
  then have hi: "j - i \<le> 2 ^ 53" by simp
  from eq lo hi show ?thesis by (intro fl_fix_nonneg [of "b - a" "j - i" "- 1074"]) simp_all
qed

lemma binary64_below_one:
  assumes "binary64 r" "0 \<le> r" "r < 1"
  shows "r \<le> 1 - pow2 (- 53)"
proof (cases "r < 1 / 2")
  case True
  have "pow2 (- 53) \<le> pow2 (- 1)" by (rule pow2_mono) simp
  with True show ?thesis by (simp add: pow2_values)
next
  case False
  then have "pow2 (- 1) \<le> r" "r < pow2 (- 1 + 1)"
    using assms(3) by (simp_all add: pow2_values)
  then have "binade r = - 1" by (rule binade_eq) simp
  then have q: "quantum r = pow2 (- 53)" by (simp add: quantum_def)
  let ?m = "rne (r / quantum r)"
  have r: "r = of_int ?m * pow2 (- 53)"
    using assms(1,2) q by (simp add: binary64_def fl_nonneg_eq)
  have p: "0 < pow2 (- 53)" by (rule pow2_pos)
  have "of_int ?m * pow2 (- 53) < of_int (2 ^ 53) * pow2 (- 53)"
    using assms(3) r by (simp only: pow2_values)
  then have "(of_int ?m :: real) < of_int (2 ^ 53)"
    using p by (simp only: mult_less_cancel_right_pos)
  then have "?m < 2 ^ 53" by (simp only: of_int_less_iff)
  then have "?m \<le> 2 ^ 53 - 1" by simp
  then have "(of_int ?m :: real) \<le> of_int (2 ^ 53 - 1)" by (simp only: of_int_le_iff)
  then have "of_int ?m * pow2 (- 53) \<le> of_int (2 ^ 53 - 1) * pow2 (- 53)"
    using p by (intro mult_right_mono) simp_all
  also have "\<dots> = of_int (2 ^ 53) * pow2 (- 53) - pow2 (- 53)"
    by (simp add: algebra_simps)
  finally show ?thesis using r by (simp only: pow2_values)
qed

lemma quantum_half: "pow2 (binade x) * pow2 (- 53) = quantum x / 2"
proof -
  have "binade x - 52 = 1 + (binade x - 53)" by linarith
  then have "quantum x = pow2 (1 + (binade x - 53))"
    unfolding quantum_def by (rule arg_cong)
  also have "\<dots> = 2 * pow2 (binade x - 53)"
    by (simp only: pow2_add) (simp add: pow2_def)
  finally have q: "quantum x / 2 = pow2 (binade x - 53)" by simp
  have "pow2 (binade x) * pow2 (- 53) = pow2 (binade x + (- 53))"
    by (simp only: pow2_add)
  with q show ?thesis by simp
qed

lemma fl_scaled_le:
  assumes a: "binary64 a" and b: "binary64 b" and ab: "a \<le> b"
    and r: "0 \<le> r" "r \<le> 1 - pow2 (- 53)"
  shows "fl (r * fl (b - a)) \<le> b - a"
proof -
  let ?x = "b - a"
  let ?d = "fl ?x"
  have x0: "0 \<le> ?x" using ab by simp
  have d0: "0 \<le> ?d" using x0 by (rule fl_nonneg)
  have r1: "r \<le> 1" using r(2) pow2_pos [of "- 53"] by linarith
  have y0: "0 \<le> r * ?d" using r(1) d0 by simp
  show ?thesis
  proof (cases "?d \<le> ?x")
    case True
    have "r * ?d \<le> 1 * ?d" using r1 d0 by (intro mult_right_mono) simp_all
    then have "fl (r * ?d) \<le> fl ?d" by (intro fl_mono) simp
    with True show ?thesis by (simp add: fl_idem)
  next
    case False
    then have up: "?x < ?d" by simp
    have norm: "pow2 (- 1022) \<le> ?x"
    proof (rule ccontr)
      assume "\<not> pow2 (- 1022) \<le> ?x"
      with a b x0 have "fl ?x = ?x" by (intro fl_sub_subnormal) simp_all
      with up show False by simp
    qed
    let ?q = "quantum ?x"
    let ?t = "?x / ?q"
    let ?m = "\<lfloor>?t\<rfloor>"
    let ?g = "of_int ?m * ?q"
    have q: "0 < ?q" by (rule quantum_pos)
    have d: "?d = of_int (rne ?t) * ?q" using x0 by (rule fl_nonneg_eq)
    have "?t * ?q < of_int (rne ?t) * ?q" using up d q by simp
    then have "?t < of_int (rne ?t)" using q by (simp only: mult_less_cancel_right_pos)
    then have rn: "rne ?t = ?m + 1" by (rule rne_up(1))
    have dg: "?d = ?g + ?q" using d rn by (simp add: algebra_simps)
    have "of_int ?m \<le> ?t" by (rule of_int_floor_le)
    then have "?g \<le> ?t * ?q" using q by (intro mult_right_mono) simp_all
    then have gx: "?g \<le> ?x" using q by simp
    have "of_int (2 ^ 52) * ?q \<le> ?x"
      using binade_normal(1) [OF norm] by (simp only: quantum_times)
    then have "of_int (2 ^ 52) \<le> ?t" using q by (simp add: pos_le_divide_eq)
    then have mlo: "2 ^ 52 \<le> ?m" by (simp only: le_floor_iff)
    have "?d \<le> of_int (2 ^ 53) * ?q"
      using fl_normal_bounds(2) [OF norm] by (simp only: quantum_times)
    then have "of_int (rne ?t) * ?q \<le> of_int (2 ^ 53) * ?q" using d by simp
    then have "(of_int (rne ?t) :: real) \<le> of_int (2 ^ 53)"
      using q by (simp only: mult_le_cancel_right_pos)
    then have "rne ?t \<le> 2 ^ 53" by (simp only: of_int_le_iff)
    then have mhi: "?m \<le> 2 ^ 53" using rn by simp
    have glo: "pow2 (binade ?x) \<le> ?g"
    proof -
      have "of_int (2 ^ 52) * ?q \<le> ?g"
        using mlo q by (intro mult_right_mono) simp_all
      then show ?thesis by (simp only: quantum_times)
    qed
    have gfix: "fl ?g = ?g"
    proof (rule fl_fix_nonneg [where m = ?m and k = "binade ?x - 52"])
      show "?g = of_int ?m * pow2 (binade ?x - 52)" by (simp add: quantum_def)
      have "(0::int) \<le> 2 ^ 52" by simp
      then show "0 \<le> ?m" using mlo by (rule order_trans)
      show "?m \<le> 2 ^ 53" by (rule mhi)
      show "- 1074 \<le> binade ?x - 52" using binade_ge [of ?x] by linarith
    qed
    have "pow2 (binade ?x) < ?d" using binade_normal(1) [OF norm] up by linarith
    then have "pow2 (binade ?x) * pow2 (- 53) < ?d * pow2 (- 53)"
      using pow2_pos [of "- 53"] by (simp only: mult_less_cancel_right_pos)
    then have half: "?q / 2 < ?d * pow2 (- 53)" by (simp only: quantum_half)
    have "r * ?d \<le> (1 - pow2 (- 53)) * ?d"
      using r(2) d0 by (intro mult_right_mono) simp_all
    then have "r * ?d \<le> ?d - ?d * pow2 (- 53)" by (simp add: algebra_simps)
    with half dg have ylt: "r * ?d < ?g + ?q / 2" by linarith
    have "fl (r * ?d) \<le> ?g"
    proof (cases "r * ?d < ?g")
      case True
      then have "fl (r * ?d) \<le> fl ?g" by (intro fl_mono) simp
      with gfix show ?thesis by simp
    next
      case False
      then have gy: "?g \<le> r * ?d" by simp
      have "?g + ?q / 2 < ?d" using dg q by simp
      also have "\<dots> \<le> pow2 (binade ?x + 1)" using norm by (rule fl_normal_bounds(2))
      finally have "r * ?d < pow2 (binade ?x + 1)" using ylt by linarith
      moreover have "pow2 (binade ?x) \<le> r * ?d" using glo gy by linarith
      ultimately have "binade (r * ?d) = binade ?x"
        using binade_ge [of ?x] by (intro binade_eq) simp_all
      then have qy: "quantum (r * ?d) = ?q" by (simp add: quantum_def)
      have "of_int ?m \<le> r * ?d / ?q" using gy q by (simp add: pos_le_divide_eq)
      moreover have "r * ?d / ?q < of_int ?m + 1 / 2"
        using ylt q by (simp add: pos_divide_less_eq algebra_simps)
      ultimately have "rne (r * ?d / ?q) = ?m" by (rule rne_below_half)
      then show ?thesis using y0 qy by (simp add: fl_nonneg_eq)
    qed
    with gx show ?thesis by linarith
  qed
qed

text \<open>The scale formula in binary64 arithmetic stays between its two bounds.\<close>

lemma lerp_lower:
  assumes "binary64 a" "a \<le> b" "0 \<le> r"
  shows "a \<le> fl (fl (r * fl (b - a)) + a)"
proof -
  have "0 \<le> fl (b - a)" using assms(2) by (intro fl_nonneg) simp
  then have "0 \<le> r * fl (b - a)" using assms(3) by simp
  then have "0 \<le> fl (r * fl (b - a))" by (rule fl_nonneg)
  then have "fl a \<le> fl (fl (r * fl (b - a)) + a)" by (intro fl_mono) simp
  with assms(1) show ?thesis by (simp add: binary64_def)
qed

lemma lerp_upper:
  assumes "binary64 a" "binary64 b" "a \<le> b" "binary64 r" "0 \<le> r" "r < 1"
  shows "fl (fl (r * fl (b - a)) + a) \<le> b"
proof -
  have "r \<le> 1 - pow2 (- 53)" using assms(4-6) by (rule binary64_below_one)
  with assms have "fl (r * fl (b - a)) \<le> b - a" by (intro fl_scaled_le) simp_all
  then have "fl (fl (r * fl (b - a)) + a) \<le> fl b" by (intro fl_mono) simp
  with assms(2) show ?thesis by (simp add: binary64_def)
qed

lemma lerp_degenerate: "binary64 a \<Longrightarrow> fl (fl (r * fl (a - a)) + a) = a"
  by (simp add: fl_0 binary64_def)

lemma binary64_of_int: "\<bar>m\<bar> \<le> 2 ^ 53 \<Longrightarrow> binary64 (of_int m)"
  by (simp add: binary64_def fl_of_int)

lemma binary64_small:
  "binary64 0" "binary64 1" "binary64 2" "binary64 3"
  using binary64_of_int [of 0] binary64_of_int [of 1] binary64_of_int [of 2]
    binary64_of_int [of 3]
  by simp_all

lemma binary64_half: "binary64 (1 / 2)"
  unfolding binary64_def
  by (rule fl_fix [of _ 1 "- 1"]) (simp_all add: pow2_def)

lemma binary64_below_one_max: "binary64 (1 - 1 / 2 ^ 53)"
  unfolding binary64_def
  by (rule fl_fix [of _ "2 ^ 53 - 1" "- 53"]) (simp_all add: pow2_def)

lemma fl_below_two: "fl (2 - 1 / 2 ^ 52) = 2 - 1 / 2 ^ 52"
  by (rule fl_fix [of _ "2 ^ 53 - 1" "- 52"]) (simp_all add: pow2_def)

lemma fl_tie_three: "fl (3 - 1 / 2 ^ 52) = 3"
proof -
  define v :: real where "v = 3 - 1 / 2 ^ 52"
  have pos: "0 \<le> v" by (simp add: v_def)
  have "binade v = 1"
    unfolding v_def by (rule binade_eq) (simp_all add: pow2_def)
  then have q: "quantum v = 1 / 2 ^ 51"
    by (simp add: quantum_def pow2_def)
  have "v / (1 / 2 ^ 51) = of_int (3 * 2 ^ 51 - 1) + 1 / 2"
    unfolding v_def by simp
  then have t: "v / quantum v = of_int (3 * 2 ^ 51 - 1) + 1 / 2"
    by (simp only: q)
  have "rne (v / quantum v) = 3 * 2 ^ 51"
    unfolding t by (simp only: rne_half) simp
  then have "fl v = of_int (3 * 2 ^ 51) * quantum v"
    by (simp only: fl_nonneg_eq [OF pos])
  also have "\<dots> = 3" unfolding q by simp
  finally show ?thesis unfolding v_def .
qed

lemma lerp_half: "fl (fl (1 / 2 * fl (3 - 1)) + 1) = 2"
  using binary64_small by (simp add: binary64_def)

lemma lerp_tie: "fl (fl ((1 - 1 / 2 ^ 53) * fl (3 - 1)) + 1) = 3"
proof -
  have a: "fl (3 - 1) = 2" using binary64_small(3) by (simp add: binary64_def)
  have b: "(1 - 1 / 2 ^ 53) * 2 = (2 - 1 / 2 ^ 52 :: real)" by simp
  have c: "2 - 1 / 2 ^ 52 + 1 = (3 - 1 / 2 ^ 52 :: real)" by simp
  show ?thesis
    by (simp only: a b fl_below_two c fl_tie_three)
qed

text \<open>No operation of the formula comes near the overflow threshold of binary64.\<close>

lemma fl_abs_le_pow2:
  assumes "\<bar>x\<bar> \<le> pow2 k" "- 1074 \<le> k"
  shows "\<bar>fl x\<bar> \<le> pow2 k"
proof -
  have fx: "fl (pow2 k) = pow2 k"
    using assms(2) by (intro fl_fix [of _ 1 k]) simp_all
  have "fl x \<le> fl (pow2 k)" using assms(1) by (intro fl_mono) simp
  moreover have "fl (- pow2 k) \<le> fl x" using assms(1) by (intro fl_mono) simp
  ultimately show ?thesis by (simp add: fx fl_minus)
qed

lemma lerp_in_range:
  assumes "\<bar>a\<bar> \<le> pow2 128" "\<bar>b\<bar> \<le> pow2 128" "0 \<le> r" "r \<le> 1"
  shows "\<bar>b - a\<bar> \<le> pow2 129"
    and "\<bar>r * fl (b - a)\<bar> \<le> pow2 129"
    and "\<bar>fl (r * fl (b - a)) + a\<bar> \<le> pow2 130"
proof -
  have p129: "pow2 129 = 2 * pow2 128" and p130: "pow2 130 = 4 * pow2 128"
    by (simp_all add: pow2_def)
  show x: "\<bar>b - a\<bar> \<le> pow2 129" using assms(1,2) p129 by linarith
  then have d: "\<bar>fl (b - a)\<bar> \<le> pow2 129" by (rule fl_abs_le_pow2) simp
  have "\<bar>r * fl (b - a)\<bar> = r * \<bar>fl (b - a)\<bar>" using assms(3) by (simp add: abs_mult)
  also have "\<dots> \<le> 1 * \<bar>fl (b - a)\<bar>" using assms(4) by (intro mult_right_mono) simp_all
  finally show y: "\<bar>r * fl (b - a)\<bar> \<le> pow2 129" using d by simp
  then have "\<bar>fl (r * fl (b - a))\<bar> \<le> pow2 129" by (rule fl_abs_le_pow2) simp
  with assms(1) p129 p130 pow2_pos [of 128]
  show "\<bar>fl (r * fl (b - a)) + a\<bar> \<le> pow2 130" by linarith
qed

subsection \<open>The random scale\<close>

lemma randomScale_default_half: "randomScale default_cfg (1 / 2) = 2"
  using lerp_half by (simp only: randomScale_def default_cfg_def tap_schema.select_convs)

lemma randomScale_default_tie: "randomScale default_cfg (1 - 1 / 2 ^ 53) = 3"
  using lerp_tie by (simp only: randomScale_def default_cfg_def tap_schema.select_convs)

lemma randomScale_degenerate: "randomScale degenerate_cfg 0 = 2"
  using lerp_degenerate [OF binary64_small(3), of 0]
  by (simp only: randomScale_def degenerate_cfg_def tap_schema.select_convs)

lemma randomScale_in_range:
  assumes "\<bar>minScale cfg\<bar> \<le> 2 ^ 128" "\<bar>maxScale cfg\<bar> \<le> 2 ^ 128" "0 \<le> r" "r \<le> 1"
  shows "\<bar>maxScale cfg - minScale cfg\<bar> \<le> 2 ^ 129
    \<and> \<bar>r * fl (maxScale cfg - minScale cfg)\<bar> \<le> 2 ^ 129
    \<and> \<bar>fl (r * fl (maxScale cfg - minScale cfg)) + minScale cfg\<bar> \<le> 2 ^ 130"
proof -
  have p: "pow2 128 = 2 ^ 128" "pow2 129 = 2 ^ 129" "pow2 130 = 2 ^ 130"
    by (simp_all add: pow2_def)
  from assms have "\<bar>minScale cfg\<bar> \<le> pow2 128" "\<bar>maxScale cfg\<bar> \<le> pow2 128"
    by (simp_all only: p)
  from lerp_in_range [OF this assms(3,4)] show ?thesis
    by (simp only: p)
qed

lemma armed0_default: "schemaAttribute (armed0 (Eid 2)) x = default_cfg"
  by (simp add: armed0_def default_cfg_def)

text \<open>
  With the default bounds 1 and 3 and the largest binary64 value below 1 as the random
  draw, the product is \<open>2 - 2^-52\<close> exactly and the sum \<open>3 - 2^-52\<close> lies half way
  between two binary64 values: it is rounded to 3, so the scale is \<^verbatim>\<open>maxScale\<close>, with
  \<open>minScale < maxScale\<close>. And with \<^verbatim>\<open>minScale = maxScale = 2\<close> and a draw of 0 the
  scale is 2. In both cases the scale is not below \<^verbatim>\<open>maxScale\<close>.
\<close>

theorem random_scale_range_counterexample:
  "binary64 (1 - 1 / 2 ^ 53) \<and> (0::real) \<le> 1 - 1 / 2 ^ 53 \<and> (1 - 1 / 2 ^ 53 :: real) < 1
   \<and> minScale default_cfg = 1 \<and> maxScale default_cfg = 3
   \<and> randomScale default_cfg (1 - 1 / 2 ^ 53) = 3
   \<and> \<not> randomScale default_cfg (1 - 1 / 2 ^ 53) < maxScale default_cfg
   \<and> binary64 0 \<and> minScale degenerate_cfg \<le> maxScale degenerate_cfg
   \<and> randomScale degenerate_cfg 0 = 2
   \<and> \<not> randomScale degenerate_cfg 0 < maxScale degenerate_cfg"
proof -
  have r: "(0::real) \<le> 1 - 1 / 2 ^ 53" "(1 - 1 / 2 ^ 53 :: real) < 1"
    by simp_all
  have d: "minScale default_cfg = 1" "maxScale default_cfg = 3"
    by (simp_all add: default_cfg_def)
  have g: "minScale degenerate_cfg \<le> maxScale degenerate_cfg" "maxScale degenerate_cfg = 2"
    by (simp_all add: degenerate_cfg_def)
  have n1: "\<not> randomScale default_cfg (1 - 1 / 2 ^ 53) < maxScale default_cfg"
    unfolding randomScale_default_tie d by simp
  have n2: "\<not> randomScale degenerate_cfg 0 < maxScale degenerate_cfg"
    unfolding randomScale_degenerate g by simp
  from binary64_below_one_max r d randomScale_default_tie n1
    binary64_small(1) g(1) randomScale_degenerate n2
  show ?thesis by blast
qed

text \<open>
  Claim C4, amended. On an accepted touch with a truthy template reference, the scale is
  \<^verbatim>\<open>Math.random() * (maxScale - minScale) + minScale\<close> in binary64 arithmetic. With
  bounds that are \<^verbatim>\<open>f32\<close> values (binary64 values of magnitude at most 2^128), a
  draw that is a binary64 value in \<open>[0, 1)\<close> and \<open>minScale \<le> maxScale\<close>, the scale
  lies between \<open>minScale\<close> and \<open>maxScale\<close>, both included (the upper bound is
  attained, as shown above), and it is \<open>minScale\<close> when the two bounds are equal. The
  three exact results that the formula rounds are at most 2^130 in magnitude, far below
  the overflow threshold, so that \<open>fl\<close> is the rounding of the program on them. The
  scale animation of the new entity has the scale as \<^verbatim>\<open>toX\<close>, \<^verbatim>\<open>toY\<close> and
  \<^verbatim>\<open>toZ\<close>.
\<close>

theorem random_scale_range:
  "500 < dateNow e - lastInteractionTime (dataAttribute st eid) \<Longrightarrow>
   truthy_eid (entityToSpawn (schemaAttribute st eid)) = Some t \<Longrightarrow>
   cfg = schemaAttribute st eid \<Longrightarrow>
   binary64 (minScale cfg) \<Longrightarrow> \<bar>minScale cfg\<bar> \<le> 2 ^ 128 \<Longrightarrow>
   binary64 (maxScale cfg) \<Longrightarrow> \<bar>maxScale cfg\<bar> \<le> 2 ^ 128 \<Longrightarrow>
   binary64 (mathRandom e) \<Longrightarrow> 0 \<le> mathRandom e \<Longrightarrow> mathRandom e < 1 \<Longrightarrow>
   minScale cfg \<le> maxScale cfg \<Longrightarrow>
   randomScale cfg (mathRandom e)
     = fl (fl (mathRandom e * fl (maxScale cfg - minScale cfg)) + minScale cfg)
   \<and> minScale cfg \<le> randomScale cfg (mathRandom e)
   \<and> randomScale cfg (mathRandom e) \<le> maxScale cfg
   \<and> (minScale cfg = maxScale cfg \<longrightarrow> randomScale cfg (mathRandom e) = minScale cfg)
   \<and> (\<bar>maxScale cfg - minScale cfg\<bar> \<le> 2 ^ 129
        \<and> \<bar>mathRandom e * fl (maxScale cfg - minScale cfg)\<bar> \<le> 2 ^ 129
        \<and> \<bar>fl (mathRandom e * fl (maxScale cfg - minScale cfg)) + minScale cfg\<bar> \<le> 2 ^ 130)
   \<and> (\<exists>q. comps (world (listen_handler eid e st)) ScaleAnimation (next_eid (world st)) = Some q
          \<and> q ''toX'' = Some (FNum (randomScale cfg (mathRandom e)))
          \<and> q ''toY'' = Some (FNum (randomScale cfg (mathRandom e)))
          \<and> q ''toZ'' = Some (FNum (randomScale cfg (mathRandom e))))"
proof (intro conjI impI)
  assume acc: "500 < dateNow e - lastInteractionTime (dataAttribute st eid)"
    and t: "truthy_eid (entityToSpawn (schemaAttribute st eid)) = Some t"
    and cfg: "cfg = schemaAttribute st eid"
    and lo: "binary64 (minScale cfg)" and hi: "binary64 (maxScale cfg)"
    and mag: "\<bar>minScale cfg\<bar> \<le> 2 ^ 128" "\<bar>maxScale cfg\<bar> \<le> 2 ^ 128"
    and r: "binary64 (mathRandom e)" "0 \<le> mathRandom e" "mathRandom e < 1"
    and le: "minScale cfg \<le> maxScale cfg"
  from r(3) have r1: "mathRandom e \<le> 1" by simp
  from randomScale_in_range [OF mag r(2) r1]
  show "\<bar>maxScale cfg - minScale cfg\<bar> \<le> 2 ^ 129"
    and "\<bar>mathRandom e * fl (maxScale cfg - minScale cfg)\<bar> \<le> 2 ^ 129"
    and "\<bar>fl (mathRandom e * fl (maxScale cfg - minScale cfg)) + minScale cfg\<bar> \<le> 2 ^ 130"
    by blast+
  show "randomScale cfg (mathRandom e)
      = fl (fl (mathRandom e * fl (maxScale cfg - minScale cfg)) + minScale cfg)"
    by (rule randomScale_def)
  from lo le r(2) show "minScale cfg \<le> randomScale cfg (mathRandom e)"
    unfolding randomScale_def by (rule lerp_lower)
  from lo hi le r show "randomScale cfg (mathRandom e) \<le> maxScale cfg"
    unfolding randomScale_def by (rule lerp_upper)
  from acc t cfg
  show "\<exists>q. comps (world (listen_handler eid e st)) ScaleAnimation (next_eid (world st)) = Some q
          \<and> q ''toX'' = Some (FNum (randomScale cfg (mathRandom e)))
          \<and> q ''toY'' = Some (FNum (randomScale cfg (mathRandom e)))
          \<and> q ''toZ'' = Some (FNum (randomScale cfg (mathRandom e)))"
    by (simp add: listen_handler_spawned spawn_world_ScaleAnimation scale_animation_props_fields)
next
  assume lo: "binary64 (minScale cfg)" and eq: "minScale cfg = maxScale cfg"
  have "randomScale cfg (mathRandom e)
      = fl (fl (mathRandom e * fl (minScale cfg - minScale cfg)) + minScale cfg)"
    by (simp only: randomScale_def eq)
  with lo show "randomScale cfg (mathRandom e) = minScale cfg"
    by (simp only: lerp_degenerate)
qed

theorem random_scale_range_witness:
  "500 < dateNow (tap_at 1000) - lastInteractionTime (dataAttribute (armed0 (Eid 2)) 1)
   \<and> truthy_eid (entityToSpawn (schemaAttribute (armed0 (Eid 2)) 1)) = Some 2
   \<and> binary64 (minScale default_cfg) \<and> \<bar>minScale default_cfg\<bar> \<le> 2 ^ 128
   \<and> binary64 (maxScale default_cfg) \<and> \<bar>maxScale default_cfg\<bar> \<le> 2 ^ 128
   \<and> binary64 (mathRandom (tap_at 1000))
   \<and> 0 \<le> mathRandom (tap_at 1000) \<and> mathRandom (tap_at 1000) < 1
   \<and> minScale default_cfg \<le> maxScale default_cfg
   \<and> randomScale default_cfg (mathRandom (tap_at 1000)) = 2
   \<and> minScale default_cfg \<le> randomScale default_cfg (mathRandom (tap_at 1000))
   \<and> randomScale default_cfg (mathRandom (tap_at 1000)) \<le> maxScale default_cfg
   \<and> (\<exists>q. comps (world (listen_handler 1 (tap_at 1000) (armed0 (Eid 2)))) ScaleAnimation 10 = Some q
          \<and> q ''toX'' = Some (FNum 2) \<and> q ''toY'' = Some (FNum 2) \<and> q ''toZ'' = Some (FNum 2))"
proof -
  have a: "500 < dateNow (tap_at 1000) - lastInteractionTime (dataAttribute (armed0 (Eid 2)) 1)"
    by (simp add: armed0_simps tap_at_simps)
  have b: "truthy_eid (entityToSpawn (schemaAttribute (armed0 (Eid 2)) 1)) = Some 2"
    by (simp add: armed0_simps)
  have c: "default_cfg = schemaAttribute (armed0 (Eid 2)) 1"
    by (simp add: armed0_default)
  have lo: "binary64 (minScale default_cfg)" "\<bar>minScale default_cfg\<bar> \<le> 2 ^ 128"
    and hi: "binary64 (maxScale default_cfg)" "\<bar>maxScale default_cfg\<bar> \<le> 2 ^ 128"
    and le: "minScale default_cfg \<le> maxScale default_cfg"
    using binary64_small by (simp_all add: default_cfg_def)
  have r: "binary64 (mathRandom (tap_at 1000))"
    "0 \<le> mathRandom (tap_at 1000)" "mathRandom (tap_at 1000) < 1"
    using binary64_half by (simp_all add: tap_at_simps)
  have v: "randomScale default_cfg (mathRandom (tap_at 1000)) = 2"
    by (simp only: tap_at_simps randomScale_default_half)
  have n: "next_eid (world (armed0 (Eid 2))) = 10"
    by (simp add: armed0_simps scene0_simps)
  note T = random_scale_range [OF a b c lo hi r le]
  from T have t1: "minScale default_cfg \<le> randomScale default_cfg (mathRandom (tap_at 1000))"
    and t2: "randomScale default_cfg (mathRandom (tap_at 1000)) \<le> maxScale default_cfg"
    by blast+
  from T have t3: "\<exists>q. comps (world (listen_handler 1 (tap_at 1000) (armed0 (Eid 2)))) ScaleAnimation
          (next_eid (world (armed0 (Eid 2)))) = Some q
      \<and> q ''toX'' = Some (FNum (randomScale default_cfg (mathRandom (tap_at 1000))))
      \<and> q ''toY'' = Some (FNum (randomScale default_cfg (mathRandom (tap_at 1000))))
      \<and> q ''toZ'' = Some (FNum (randomScale default_cfg (mathRandom (tap_at 1000))))"
    by blast
  from a b lo hi r le v t1 t2 t3 [unfolded v n] show ?thesis
    by blast
qed

subsection \<open>Placement and the grow-in animation\<close>

text \<open>
  Claim C5. On an accepted touch with a truthy template reference, one entity is created
  and its position component has the \<^verbatim>\<open>x\<close>, \<^verbatim>\<open>y\<close> and \<^verbatim>\<open>z\<close> of the event's world
  position, whatever position the template has (the state is arbitrary): the handler sets
  the position after it has cloned.
\<close>

theorem spawn_placed_at_tap:
  "500 < dateNow e - lastInteractionTime (dataAttribute st eid) \<Longrightarrow>
   truthy_eid (entityToSpawn (schemaAttribute st eid)) = Some t \<Longrightarrow>
   worldPosition e = (a, b, c) \<Longrightarrow>
   next_eid (world (listen_handler eid e st)) = Suc (next_eid (world st))
   \<and> (\<exists>q. comps (world (listen_handler eid e st)) Position (next_eid (world st)) = Some q
          \<and> q ''x'' = Some (FNum a) \<and> q ''y'' = Some (FNum b) \<and> q ''z'' = Some (FNum c))"
  by (simp add: listen_handler_spawned spawn_world_next_eid spawn_world_Position
        vec3_props_fields)

theorem spawn_placed_at_tap_witness:
  "500 < dateNow (tap_at 1000) - lastInteractionTime (dataAttribute (armed0 (Eid 2)) 1)
   \<and> truthy_eid (entityToSpawn (schemaAttribute (armed0 (Eid 2)) 1)) = Some 2
   \<and> worldPosition (tap_at 1000) = (1, 2, 3)
   \<and> comps (world (armed0 (Eid 2))) Position 2
        = Some [''x'' \<mapsto> FNum 5, ''y'' \<mapsto> FNum 6, ''z'' \<mapsto> FNum 7]
   \<and> next_eid (world (listen_handler 1 (tap_at 1000) (armed0 (Eid 2)))) = 11
   \<and> (\<exists>q. comps (world (listen_handler 1 (tap_at 1000) (armed0 (Eid 2)))) Position 10 = Some q
          \<and> q ''x'' = Some (FNum 1) \<and> q ''y'' = Some (FNum 2) \<and> q ''z'' = Some (FNum 3))"
proof -
  have a: "500 < dateNow (tap_at 1000) - lastInteractionTime (dataAttribute (armed0 (Eid 2)) 1)"
    by (simp add: armed0_simps tap_at_simps)
  have b: "truthy_eid (entityToSpawn (schemaAttribute (armed0 (Eid 2)) 1)) = Some 2"
    by (simp add: armed0_simps)
  have c: "worldPosition (tap_at 1000) = (1, 2, 3)"
    by (simp add: tap_at_simps)
  have n: "next_eid (world (armed0 (Eid 2))) = 10"
    "comps (world (armed0 (Eid 2))) Position 2
        = Some [''x'' \<mapsto> FNum 5, ''y'' \<mapsto> FNum 6, ''z'' \<mapsto> FNum 7]"
    by (simp_all add: armed0_simps scene0_simps)
  from spawn_placed_at_tap [OF a b c, unfolded n] a b c n(2) show ?thesis
    by simp
qed

lemma spawn_world_ScaleAnimation_kept:
  assumes p: "comps w ScaleAnimation t = Some p" and f: "f \<in> dom p"
  shows "current_props ScaleAnimation
           (component_set Position
              (cloneComponents t (next_eid w) (w\<lparr>next_eid := Suc (next_eid w)\<rparr>))
              (next_eid w) d) (next_eid w) f = p f"
proof -
  let ?w1 = "w\<lparr>next_eid := Suc (next_eid w)\<rparr>"
  have "comps (cloneComponents t (next_eid w) ?w1) ScaleAnimation (next_eid w)
      = Some (current_props ScaleAnimation ?w1 (next_eid w) ++ p)"
    using p by (simp add: cloneComponents_comps componentsForClone_def)
  then have "current_props ScaleAnimation
           (component_set Position (cloneComponents t (next_eid w) ?w1) (next_eid w) d)
           (next_eid w)
      = current_props ScaleAnimation ?w1 (next_eid w) ++ p"
    by (simp add: current_props_def component_set_simps)
  with f show ?thesis by (auto simp: map_add_def split: option.splits)
qed

text \<open>
  A template whose scale animation has \<^verbatim>\<open>autoFrom\<close> and \<^verbatim>\<open>reverse\<close> set: the
  spawned entity's scale animation still has both after the handler's write, so the
  animation copied from the template is not overwritten as a whole, and the value on the
  entity is not the one the handler passed to \<^verbatim>\<open>set\<close>.
\<close>

theorem spawn_grows_in_counterexample:
  "component_prop ScaleAnimation (world armed_auto) 2 ''autoFrom'' = Some (FBool True)
   \<and> component_prop ScaleAnimation (world armed_auto) 2 ''reverse'' = Some (FBool True)
   \<and> 500 < dateNow (tap_at 1000) - lastInteractionTime (dataAttribute armed_auto 1)
   \<and> truthy_eid (entityToSpawn (schemaAttribute armed_auto 1)) = Some 2
   \<and> next_eid (world armed_auto) = 10
   \<and> component_prop ScaleAnimation (world (listen_handler 1 (tap_at 1000) armed_auto)) 10
        ''autoFrom'' = Some (FBool True)
   \<and> component_prop ScaleAnimation (world (listen_handler 1 (tap_at 1000) armed_auto)) 10
        ''reverse'' = Some (FBool True)
   \<and> comps (world (listen_handler 1 (tap_at 1000) armed_auto)) ScaleAnimation 10
        \<noteq> Some (scale_animation_props
               (randomScale (schemaAttribute armed_auto 1) (mathRandom (tap_at 1000))))"
proof -
  let ?st = "listen_handler 1 (tap_at 1000) armed_auto"
  let ?p = "[''autoFrom'' \<mapsto> FBool True, ''reverse'' \<mapsto> FBool True,
             ''toX'' \<mapsto> FNum 9, ''loop'' \<mapsto> FBool True]"
  have w: "next_eid (world armed_auto) = 10"
    "comps (world armed_auto) ScaleAnimation 2 = Some ?p"
    by (simp_all add: armed_auto_def scene0_def)
  have a: "500 < dateNow (tap_at 1000) - lastInteractionTime (dataAttribute armed_auto 1)"
    by (simp add: armed_auto_def armed0_simps tap_at_simps)
  then have a': "\<not> dateNow (tap_at 1000) - lastInteractionTime (dataAttribute armed_auto 1) \<le> 500"
    by simp
  have b: "truthy_eid (entityToSpawn (schemaAttribute armed_auto 1)) = Some 2"
    by (simp add: armed_auto_def armed0_simps)
  define base where "base = current_props ScaleAnimation
           (component_set Position
              (cloneComponents 2 (next_eid (world armed_auto))
                 ((world armed_auto)\<lparr>next_eid := Suc (next_eid (world armed_auto))\<rparr>))
              (next_eid (world armed_auto)) (vec3_props (worldPosition (tap_at 1000))))
           (next_eid (world armed_auto))"
  have k: "base f = ?p f" if "f \<in> dom ?p" for f
    unfolding base_def using w(2) that by (rule spawn_world_ScaleAnimation_kept)
  have "comps (world ?st) ScaleAnimation (next_eid (world armed_auto))
      = Some (base ++ scale_animation_props
               (randomScale (schemaAttribute armed_auto 1) (mathRandom (tap_at 1000))))"
    unfolding base_def listen_handler_spawned [OF a' b]
    by (simp add: spawn_world_ScaleAnimation)
  then have val: "comps (world ?st) ScaleAnimation 10
      = Some (base ++ scale_animation_props
               (randomScale (schemaAttribute armed_auto 1) (mathRandom (tap_at 1000))))"
    by (simp only: w(1))
  have "base ''autoFrom'' = ?p ''autoFrom''" by (rule k) simp
  then have t1: "component_prop ScaleAnimation (world ?st) 10 ''autoFrom'' = Some (FBool True)"
    unfolding component_prop_def val by (simp add: map_add_def scale_animation_props_def)
  have "base ''reverse'' = ?p ''reverse''" by (rule k) simp
  then have t2: "component_prop ScaleAnimation (world ?st) 10 ''reverse'' = Some (FBool True)"
    unfolding component_prop_def val by (simp add: map_add_def scale_animation_props_def)
  have t3: "comps (world ?st) ScaleAnimation 10
        \<noteq> Some (scale_animation_props
               (randomScale (schemaAttribute armed_auto 1) (mathRandom (tap_at 1000))))"
  proof
    assume "comps (world ?st) ScaleAnimation 10
        = Some (scale_animation_props
               (randomScale (schemaAttribute armed_auto 1) (mathRandom (tap_at 1000))))"
    then have "component_prop ScaleAnimation (world ?st) 10 ''autoFrom'' = None"
      unfolding component_prop_def by (simp add: scale_animation_props_def)
    with t1 show False by simp
  qed
  have t0: "component_prop ScaleAnimation (world armed_auto) 2 ''autoFrom'' = Some (FBool True)"
    "component_prop ScaleAnimation (world armed_auto) 2 ''reverse'' = Some (FBool True)"
    by (simp_all add: component_prop_def w(2))
  from t0 a b w(1) t1 t2 t3 show ?thesis by blast
qed

text \<open>
  Claim C6, amended. On an accepted touch with a truthy template reference, the new
  entity's scale animation has \<^verbatim>\<open>fromX\<close>, \<^verbatim>\<open>fromY\<close>, \<^verbatim>\<open>fromZ\<close> equal to 0,
  \<^verbatim>\<open>toX\<close>, \<^verbatim>\<open>toY\<close>, \<^verbatim>\<open>toZ\<close> equal to the computed scale, \<^verbatim>\<open>duration\<close> 400,
  \<^verbatim>\<open>loop\<close> false, \<^verbatim>\<open>easeOut\<close> true and \<^verbatim>\<open>easingFunction\<close> "Quadratic",
  whatever scale animation the template has: the handler sets these ten properties after
  it has cloned. Every other property of the template's scale animation is on the new
  entity with the template's value.
\<close>

theorem spawn_grows_in:
  "500 < dateNow e - lastInteractionTime (dataAttribute st eid) \<Longrightarrow>
   truthy_eid (entityToSpawn (schemaAttribute st eid)) = Some t \<Longrightarrow>
   s = randomScale (schemaAttribute st eid) (mathRandom e) \<Longrightarrow>
   (\<exists>q. comps (world (listen_handler eid e st)) ScaleAnimation (next_eid (world st)) = Some q
      \<and> q ''fromX'' = Some (FNum 0) \<and> q ''fromY'' = Some (FNum 0) \<and> q ''fromZ'' = Some (FNum 0)
      \<and> q ''toX'' = Some (FNum s) \<and> q ''toY'' = Some (FNum s) \<and> q ''toZ'' = Some (FNum s)
      \<and> q ''duration'' = Some (FNum 400)
      \<and> q ''loop'' = Some (FBool False)
      \<and> q ''easeOut'' = Some (FBool True)
      \<and> q ''easingFunction'' = Some (FStr ''Quadratic'')
      \<and> (\<forall>p f. comps (world st) ScaleAnimation t = Some p \<longrightarrow> f \<in> dom p \<longrightarrow>
             f \<notin> {''fromX'', ''fromY'', ''fromZ'', ''toX'', ''toY'', ''toZ'',
                   ''duration'', ''loop'', ''easeOut'', ''easingFunction''} \<longrightarrow>
             q f = p f))"
proof -
  assume acc: "500 < dateNow e - lastInteractionTime (dataAttribute st eid)"
    and t: "truthy_eid (entityToSpawn (schemaAttribute st eid)) = Some t"
    and s: "s = randomScale (schemaAttribute st eid) (mathRandom e)"
  let ?base = "current_props ScaleAnimation
           (component_set Position
              (cloneComponents t (next_eid (world st))
                 ((world st)\<lparr>next_eid := Suc (next_eid (world st))\<rparr>))
              (next_eid (world st)) (vec3_props (worldPosition e))) (next_eid (world st))"
  let ?q = "?base ++ scale_animation_props s"
  from acc t s
  have q: "comps (world (listen_handler eid e st)) ScaleAnimation (next_eid (world st)) = Some ?q"
    by (simp add: listen_handler_spawned spawn_world_ScaleAnimation)
  have kept: "?q f = p f"
    if "comps (world st) ScaleAnimation t = Some p" "f \<in> dom p"
      "f \<notin> {''fromX'', ''fromY'', ''fromZ'', ''toX'', ''toY'', ''toZ'',
              ''duration'', ''loop'', ''easeOut'', ''easingFunction''}" for p f
  proof -
    from that(3) have "scale_animation_props s f = None"
      by (simp add: scale_animation_props_def)
    then have "?q f = ?base f" by (simp add: map_add_def)
    also have "\<dots> = p f" using that(1,2) by (rule spawn_world_ScaleAnimation_kept)
    finally show ?thesis .
  qed
  from q kept show ?thesis
    by (intro exI [of _ ?q] conjI allI impI)
       (simp_all add: scale_animation_props_fields)
qed

theorem spawn_grows_in_witness:
  "500 < dateNow (tap_at 1000) - lastInteractionTime (dataAttribute armed_auto 1)
   \<and> truthy_eid (entityToSpawn (schemaAttribute armed_auto 1)) = Some 2
   \<and> randomScale (schemaAttribute armed_auto 1) (mathRandom (tap_at 1000)) = 2
   \<and> comps (world armed_auto) ScaleAnimation 2
        = Some [''autoFrom'' \<mapsto> FBool True, ''reverse'' \<mapsto> FBool True,
                ''toX'' \<mapsto> FNum 9, ''loop'' \<mapsto> FBool True]
   \<and> (\<exists>q. comps (world (listen_handler 1 (tap_at 1000) armed_auto)) ScaleAnimation 10 = Some q
      \<and> q ''fromX'' = Some (FNum 0) \<and> q ''fromY'' = Some (FNum 0) \<and> q ''fromZ'' = Some (FNum 0)
      \<and> q ''toX'' = Some (FNum 2) \<and> q ''toY'' = Some (FNum 2) \<and> q ''toZ'' = Some (FNum 2)
      \<and> q ''duration'' = Some (FNum 400)
      \<and> q ''loop'' = Some (FBool False)
      \<and> q ''easeOut'' = Some (FBool True)
      \<and> q ''easingFunction'' = Some (FStr ''Quadratic'')
      \<and> q ''autoFrom'' = Some (FBool True)
      \<and> q ''reverse'' = Some (FBool True))"
proof -
  let ?p = "[''autoFrom'' \<mapsto> FBool True, ''reverse'' \<mapsto> FBool True,
             ''toX'' \<mapsto> FNum 9, ''loop'' \<mapsto> FBool True]"
  have a: "500 < dateNow (tap_at 1000) - lastInteractionTime (dataAttribute armed_auto 1)"
    by (simp add: armed_auto_def armed0_simps tap_at_simps)
  have b: "truthy_eid (entityToSpawn (schemaAttribute armed_auto 1)) = Some 2"
    by (simp add: armed_auto_def armed0_simps)
  have c: "schemaAttribute armed_auto 1 = default_cfg"
    by (simp add: armed_auto_def armed0_default)
  have v: "(2::real) = randomScale (schemaAttribute armed_auto 1) (mathRandom (tap_at 1000))"
    by (simp only: c tap_at_simps randomScale_default_half)
  have n: "next_eid (world armed_auto) = 10"
    and p: "comps (world armed_auto) ScaleAnimation 2 = Some ?p"
    by (simp_all add: armed_auto_def scene0_def)
  from spawn_grows_in [OF a b v, unfolded n] obtain q
    where q: "comps (world (listen_handler 1 (tap_at 1000) armed_auto)) ScaleAnimation 10 = Some q"
      "q ''fromX'' = Some (FNum 0)" "q ''fromY'' = Some (FNum 0)" "q ''fromZ'' = Some (FNum 0)"
      "q ''toX'' = Some (FNum 2)" "q ''toY'' = Some (FNum 2)" "q ''toZ'' = Some (FNum 2)"
      "q ''duration'' = Some (FNum 400)" "q ''loop'' = Some (FBool False)"
      "q ''easeOut'' = Some (FBool True)" "q ''easingFunction'' = Some (FStr ''Quadratic'')"
      and kept: "\<And>p f. comps (world armed_auto) ScaleAnimation 2 = Some p \<Longrightarrow> f \<in> dom p \<Longrightarrow>
             f \<notin> {''fromX'', ''fromY'', ''fromZ'', ''toX'', ''toY'', ''toZ'',
                   ''duration'', ''loop'', ''easeOut'', ''easingFunction''} \<Longrightarrow> q f = p f"
    by blast
  have "q ''autoFrom'' = ?p ''autoFrom''" by (rule kept [OF p]) simp_all
  then have k1: "q ''autoFrom'' = Some (FBool True)" by simp
  have "q ''reverse'' = ?p ''reverse''" by (rule kept [OF p]) simp_all
  then have k2: "q ''reverse'' = Some (FBool True)" by simp
  from q k1 k2 have "\<exists>q. comps (world (listen_handler 1 (tap_at 1000) armed_auto)) ScaleAnimation 10 = Some q
      \<and> q ''fromX'' = Some (FNum 0) \<and> q ''fromY'' = Some (FNum 0) \<and> q ''fromZ'' = Some (FNum 0)
      \<and> q ''toX'' = Some (FNum 2) \<and> q ''toY'' = Some (FNum 2) \<and> q ''toZ'' = Some (FNum 2)
      \<and> q ''duration'' = Some (FNum 400)
      \<and> q ''loop'' = Some (FBool False)
      \<and> q ''easeOut'' = Some (FBool True)
      \<and> q ''easingFunction'' = Some (FStr ''Quadratic'')
      \<and> q ''autoFrom'' = Some (FBool True)
      \<and> q ''reverse'' = Some (FBool True)"
    by blast
  with a b v [symmetric] p show ?thesis by blast
qed

section \<open>The first touch\<close>

lemma onEnter_simps:
  "schemaAttribute (onEnter eid st) = schemaAttribute st"
  "dataAttribute (onEnter eid st) = dataAttribute st"
  "console (onEnter eid st) = console st"
  "next_eid (world (onEnter eid st)) = next_eid (world st)"
  by (simp_all add: onEnter_def component_set_simps split: option.splits)

text \<open>
  Claim C7. The data attribute is never written before the first touch, so its
  \<^verbatim>\<open>lastInteractionTime\<close> is still the engine's initial 0 on a controller that has
  just been activated. \<^verbatim>\<open>Date.now()\<close> is the wall clock in milliseconds since the
  start of 1970, so it is above 500 in every run. The first touch that the handler
  receives is then accepted: the state changes, the time stamp becomes the touch's time,
  an entity is created when the template reference is truthy, and the error is reported
  otherwise.
\<close>

theorem first_tap_accepted:
  "lastInteractionTime (dataAttribute st eid) = 0 \<Longrightarrow>
   500 < dateNow e \<Longrightarrow>
   listen_handler eid e (onEnter eid st) \<noteq> onEnter eid st
   \<and> lastInteractionTime (dataAttribute (listen_handler eid e (onEnter eid st)) eid) = dateNow e
   \<and> (truthy_eid (entityToSpawn (schemaAttribute st eid)) \<noteq> None \<longrightarrow>
        next_eid (world (listen_handler eid e (onEnter eid st))) = Suc (next_eid (world st)))
   \<and> (truthy_eid (entityToSpawn (schemaAttribute st eid)) = None \<longrightarrow>
        console (listen_handler eid e (onEnter eid st))
          = console st @ [missing_template_message])"
proof (intro conjI impI)
  assume z: "lastInteractionTime (dataAttribute st eid) = 0" and late: "500 < dateNow e"
  from z late
  show stamped: "lastInteractionTime (dataAttribute (listen_handler eid e (onEnter eid st)) eid)
      = dateNow e"
    by (simp add: handler_last onEnter_simps)
  show "listen_handler eid e (onEnter eid st) \<noteq> onEnter eid st"
  proof
    assume "listen_handler eid e (onEnter eid st) = onEnter eid st"
    with stamped have "lastInteractionTime (dataAttribute (onEnter eid st) eid) = dateNow e"
      by simp
    with z late show False by (simp add: onEnter_simps)
  qed
  {
    assume "truthy_eid (entityToSpawn (schemaAttribute st eid)) \<noteq> None"
    with z late
    show "next_eid (world (listen_handler eid e (onEnter eid st))) = Suc (next_eid (world st))"
      by (simp add: handler_next_eid onEnter_simps)
  }
  {
    assume none: "truthy_eid (entityToSpawn (schemaAttribute st eid)) = None"
    with z late have "listen_handler eid e (onEnter eid st) =
        (stamp eid (dateNow e) (onEnter eid st))
          \<lparr>console := console (onEnter eid st) @ [missing_template_message]\<rparr>"
      by (intro listen_handler_missing) (simp_all add: onEnter_simps)
    then show "console (listen_handler eid e (onEnter eid st))
        = console st @ [missing_template_message]"
      by (simp add: onEnter_simps)
  }
qed

theorem first_tap_accepted_witness:
  "lastInteractionTime (dataAttribute (armed0 (Eid 2)) 1) = 0
   \<and> 500 < dateNow (tap_at 1762000000000)
   \<and> truthy_eid (entityToSpawn (schemaAttribute (armed0 (Eid 2)) 1)) \<noteq> None
   \<and> listen_handler 1 (tap_at 1762000000000) (onEnter 1 (armed0 (Eid 2)))
       \<noteq> onEnter 1 (armed0 (Eid 2))
   \<and> lastInteractionTime
        (dataAttribute (listen_handler 1 (tap_at 1762000000000) (onEnter 1 (armed0 (Eid 2)))) 1)
       = 1762000000000
   \<and> next_eid (world (listen_handler 1 (tap_at 1762000000000) (onEnter 1 (armed0 (Eid 2))))) = 11
   \<and> truthy_eid (entityToSpawn (schemaAttribute (armed0 NoEid) 1)) = None
   \<and> console (listen_handler 1 (tap_at 1762000000000) (onEnter 1 (armed0 NoEid)))
       = [missing_template_message]"
proof -
  have z: "lastInteractionTime (dataAttribute (armed0 (Eid 2)) 1) = 0"
    "lastInteractionTime (dataAttribute (armed0 NoEid) 1) = 0"
    by (simp_all add: armed0_simps)
  have late: "500 < dateNow (tap_at 1762000000000)"
    by (simp add: tap_at_simps)
  have some: "truthy_eid (entityToSpawn (schemaAttribute (armed0 (Eid 2)) 1)) \<noteq> None"
    and none: "truthy_eid (entityToSpawn (schemaAttribute (armed0 NoEid) 1)) = None"
    by (simp_all add: armed0_simps)
  from first_tap_accepted [OF z(1) late] some
  have t0: "listen_handler 1 (tap_at 1762000000000) (onEnter 1 (armed0 (Eid 2)))
        \<noteq> onEnter 1 (armed0 (Eid 2))"
    and t1: "lastInteractionTime
        (dataAttribute (listen_handler 1 (tap_at 1762000000000) (onEnter 1 (armed0 (Eid 2)))) 1)
        = dateNow (tap_at 1762000000000)"
    and t2: "next_eid (world (listen_handler 1 (tap_at 1762000000000) (onEnter 1 (armed0 (Eid 2)))))
        = Suc (next_eid (world (armed0 (Eid 2))))"
    by blast+
  from first_tap_accepted [OF z(2) late] none
  have t3: "console (listen_handler 1 (tap_at 1762000000000) (onEnter 1 (armed0 NoEid)))
        = console (armed0 NoEid) @ [missing_template_message]"
    by blast
  have e: "dateNow (tap_at 1762000000000) = 1762000000000"
    "Suc (next_eid (world (armed0 (Eid 2)))) = 11"
    "console (armed0 NoEid) @ [missing_template_message] = [missing_template_message]"
    by (simp_all add: armed0_simps tap_at_simps scene0_simps)
  from z(1) late some t0 t1 [unfolded e] t2 [unfolded e] none t3 [unfolded e]
  show ?thesis by blast
qed

section \<open>Hiding the template\<close>

lemma spawn_world_Disabled:
  "comps (spawn_world cfg e t w) Disabled x = comps w Disabled x"
  by (simp add: spawn_world_def component_set_simps cloneComponents_comps componentsForClone_def)

lemma handler_Disabled:
  "comps (world (listen_handler eid e st)) Disabled x = comps (world st) Disabled x"
  by (cases eid e st rule: handler_cases) (simp_all add: stamp_def spawn_world_Disabled)

lemma run_Disabled:
  "comps (world (run eid es st)) Disabled x = comps (world st) Disabled x"
  unfolding run_def
  by (induction es arbitrary: st) (simp_all add: handler_Disabled)

text \<open>
  Claim C8. When the template reference is truthy, \<^verbatim>\<open>onEnter\<close> leaves the template
  with the \<^verbatim>\<open>Disabled\<close> component, and it still has it after any sequence of touches
  handled for any controlled entity: the handler writes only registry components, the
  position and the scale animation, and \<^verbatim>\<open>Disabled\<close> is none of these. When the
  reference is not truthy, \<^verbatim>\<open>onEnter\<close> returns the state unchanged.
\<close>

theorem template_hidden:
  "(truthy_eid (entityToSpawn (schemaAttribute st eid)) = Some t \<longrightarrow>
      component_has Disabled (world (onEnter eid st)) t
      \<and> (\<forall>c es. component_has Disabled (world (run c es (onEnter eid st))) t))
   \<and> (truthy_eid (entityToSpawn (schemaAttribute st eid)) = None \<longrightarrow> onEnter eid st = st)"
proof (intro conjI impI allI)
  assume t: "truthy_eid (entityToSpawn (schemaAttribute st eid)) = Some t"
  then show d: "component_has Disabled (world (onEnter eid st)) t"
    by (simp add: onEnter_def component_has_def component_set_simps)
  fix c es
  from d show "component_has Disabled (world (run c es (onEnter eid st))) t"
    by (simp add: component_has_def run_Disabled)
next
  assume "truthy_eid (entityToSpawn (schemaAttribute st eid)) = None"
  then show "onEnter eid st = st"
    by (simp add: onEnter_def)
qed

theorem template_hidden_witness:
  "truthy_eid (entityToSpawn (schemaAttribute (armed0 (Eid 2)) 1)) = Some 2
   \<and> \<not> component_has Disabled (world (armed0 (Eid 2))) 2
   \<and> component_has Disabled (world (onEnter 1 (armed0 (Eid 2)))) 2
   \<and> spawn_times 1 [tap_at 1000, tap_at 2000] (onEnter 1 (armed0 (Eid 2))) = [1000, 2000]
   \<and> component_has Disabled
        (world (run 1 [tap_at 1000, tap_at 2000] (onEnter 1 (armed0 (Eid 2))))) 2
   \<and> truthy_eid (entityToSpawn (schemaAttribute (armed0 NoEid) 1)) = None
   \<and> onEnter 1 (armed0 NoEid) = armed0 NoEid"
proof -
  have some: "truthy_eid (entityToSpawn (schemaAttribute (armed0 (Eid 2)) 1)) = Some 2"
    and none: "truthy_eid (entityToSpawn (schemaAttribute (armed0 NoEid) 1)) = None"
    by (simp_all add: armed0_simps)
  have before: "\<not> component_has Disabled (world (armed0 (Eid 2))) 2"
    by (simp add: component_has_def armed0_simps scene0_simps)
  have sp: "spawn_times 1 [tap_at 1000, tap_at 2000] (onEnter 1 (armed0 (Eid 2))) = [1000, 2000]"
    by (simp add: handler_next_eid handler_last handler_schema onEnter_simps
          armed0_simps tap_at_simps)
  from template_hidden [of "armed0 (Eid 2)" 1 2] some
  have t1: "component_has Disabled (world (onEnter 1 (armed0 (Eid 2)))) 2"
    and t2: "component_has Disabled
        (world (run 1 [tap_at 1000, tap_at 2000] (onEnter 1 (armed0 (Eid 2))))) 2"
    by blast+
  from template_hidden [of "armed0 NoEid" 1 2] none
  have t3: "onEnter 1 (armed0 NoEid) = armed0 NoEid"
    by blast
  from some none before sp t1 t2 t3 show ?thesis
    by simp
qed

section \<open>The registry\<close>

text \<open>
  The enumeration of the specification names nineteen kinds, four of them "animation
  kinds" between the material and the custom-property animation. The source's list has
  eighteen entries, and between \<^verbatim>\<open>Material\<close> (index 5) and
  \<^verbatim>\<open>CustomPropertyAnimation\<close> (index 9) it has three: the scale, position and rotate
  animations.
\<close>

theorem registry_enumeration_counterexample:
  "length componentsForClone = 18
   \<and> sum_list (map snd spec_enumeration) = 19
   \<and> map_of spec_enumeration ''the four animation kinds'' = Some 4
   \<and> componentsForClone ! 5 = Material
   \<and> take 3 (drop 6 componentsForClone) = [ScaleAnimation, PositionAnimation, RotateAnimation]
   \<and> componentsForClone ! 9 = CustomPropertyAnimation
   \<and> length componentsForClone \<noteq> sum_list (map snd spec_enumeration)"
  by (simp add: componentsForClone_def spec_enumeration_def)

text \<open>
  Claim C9, amended. The registry is the list of these eighteen kinds, in this order
  and without repetition: position, orientation, scale, shadow, box geometry, material,
  three animation kinds (scale, position, rotate), the custom-property and custom-vector
  animations, the follow and look-at animations, model, collider, particle emitter, UI,
  audio. A clone changes no component that is not in the registry, on any entity; and a
  component whose value on the target differs after the clone is in the registry and
  present on the source.
\<close>

theorem registry_closed:
  "componentsForClone =
     [Position, Quaternion, Scale, Shadow, BoxGeometry, Material,
      ScaleAnimation, PositionAnimation, RotateAnimation,
      CustomPropertyAnimation, CustomVec3Animation,
      FollowAnimation, LookAtAnimation,
      GltfModel, Collider, ParticleEmitter, Ui, Audio]
   \<and> distinct componentsForClone
   \<and> length componentsForClone = 18
   \<and> (\<forall>k s t w x. k \<notin> set componentsForClone \<longrightarrow>
         comps (cloneComponents s t w) k x = comps w k x)
   \<and> (\<forall>k s t w. comps (cloneComponents s t w) k t \<noteq> comps w k t \<longrightarrow>
         k \<in> set componentsForClone \<and> comps w k s \<noteq> None)"
proof (intro conjI allI impI)
  show "componentsForClone =
     [Position, Quaternion, Scale, Shadow, BoxGeometry, Material,
      ScaleAnimation, PositionAnimation, RotateAnimation,
      CustomPropertyAnimation, CustomVec3Animation,
      FollowAnimation, LookAtAnimation,
      GltfModel, Collider, ParticleEmitter, Ui, Audio]"
    by (rule componentsForClone_def)
  show "distinct componentsForClone"
    by (rule distinct_componentsForClone)
  show "length componentsForClone = 18"
    by (simp add: componentsForClone_def)
next
  fix k s t w x
  assume "k \<notin> set componentsForClone"
  then show "comps (cloneComponents s t w) k x = comps w k x"
    by (simp add: cloneComponents_comps)
next
  fix k s t w
  assume ch: "comps (cloneComponents s t w) k t \<noteq> comps w k t"
  then show "k \<in> set componentsForClone"
    by (auto simp: cloneComponents_comps split: if_splits)
  from ch show "comps w k s \<noteq> None"
    by (auto simp: cloneComponents_comps split: if_splits)
qed

theorem registry_closed_witness:
  "Disabled \<notin> set componentsForClone
   \<and> comps (component_set Disabled scene0 2 Map.empty) Disabled 2 = Some Map.empty
   \<and> comps (cloneComponents 2 4 (component_set Disabled scene0 2 Map.empty)) Disabled 4 = None
   \<and> comps (cloneComponents 2 4 scene0) Material 4 \<noteq> comps scene0 Material 4
   \<and> Material \<in> set componentsForClone \<and> comps scene0 Material 2 \<noteq> None"
proof -
  have a: "Disabled \<notin> set componentsForClone"
    by (simp add: componentsForClone_def)
  have b: "comps (component_set Disabled scene0 2 Map.empty) Disabled 2 = Some Map.empty"
    "comps (component_set Disabled scene0 2 Map.empty) Disabled 4 = None"
    by (simp_all add: component_set_simps current_props_def scene0_simps)
  have c: "comps (cloneComponents 2 4 scene0) Material 4 \<noteq> comps scene0 Material 4"
    by (simp add: cloneComponents_comps componentsForClone_def scene0_simps)
  note T = registry_closed
  from T a have t1: "comps (cloneComponents 2 4 (component_set Disabled scene0 2 Map.empty)) Disabled 4
      = comps (component_set Disabled scene0 2 Map.empty) Disabled 4"
    by blast
  from T c have t2: "Material \<in> set componentsForClone \<and> comps scene0 Material 2 \<noteq> None"
    by blast
  from a b c t1 t2 show ?thesis by simp
qed

section \<open>A template reference of zero\<close>

lemma with_template_simps:
  "world (with_template eid r st) = world st"
  "dataAttribute (with_template eid r st) = dataAttribute st"
  "console (with_template eid r st) = console st"
  "entityToSpawn (schemaAttribute (with_template eid r st) eid) = r"
  "minScale (schemaAttribute (with_template eid r st) eid) = minScale (schemaAttribute st eid)"
  "maxScale (schemaAttribute (with_template eid r st) eid) = maxScale (schemaAttribute st eid)"
  by (simp_all add: with_template_def)

lemma with_template_twice:
  "with_template eid r (with_template eid r' st) = with_template eid r st"
  by (simp add: with_template_def)

lemma with_template_same:
  assumes "entityToSpawn (schemaAttribute st eid) = r"
  shows "with_template eid r st = st"
proof -
  from assms have "(schemaAttribute st eid)\<lparr>entityToSpawn := r\<rparr> = schemaAttribute st eid"
    by (cases "schemaAttribute st eid") simp
  then show ?thesis
    by (simp add: with_template_def)
qed

lemma handler_falsy:
  assumes "truthy_eid (entityToSpawn (schemaAttribute st eid)) = None"
  shows "listen_handler eid e st =
     (if dateNow e - lastInteractionTime (dataAttribute st eid) \<le> 500 then st
      else (stamp eid (dateNow e) st)\<lparr>console := console st @ [missing_template_message]\<rparr>)"
  using assms by (simp add: listen_handler_ignored listen_handler_missing)

text \<open>
  Claim C10. With \<^verbatim>\<open>entityToSpawn\<close> equal to the id 0, \<^verbatim>\<open>onEnter\<close> changes nothing,
  as with a reference that was never set, and the handler does on every touch what it
  does for a reference that was never set (the two runs differ only in the stored
  reference itself): the world is never changed, so no entity is created and entity 0 is
  not cloned, and an accepted touch updates the time stamp and appends the error message
  to the console.
\<close>

theorem zero_template_like_unset:
  "entityToSpawn (schemaAttribute st eid) = Eid 0 \<Longrightarrow>
   onEnter eid st = st
   \<and> onEnter eid (with_template eid NoEid st) = with_template eid NoEid st
   \<and> listen_handler eid e st
       = with_template eid (Eid 0) (listen_handler eid e (with_template eid NoEid st))
   \<and> world (listen_handler eid e st) = world st
   \<and> (500 < dateNow e - lastInteractionTime (dataAttribute st eid) \<longrightarrow>
        lastInteractionTime (dataAttribute (listen_handler eid e st) eid) = dateNow e
        \<and> console (listen_handler eid e st) = console st @ [missing_template_message])"
proof (intro conjI impI)
  assume z: "entityToSpawn (schemaAttribute st eid) = Eid 0"
  then have f: "truthy_eid (entityToSpawn (schemaAttribute st eid)) = None"
    by simp
  have g: "truthy_eid (entityToSpawn (schemaAttribute (with_template eid NoEid st) eid)) = None"
    by (simp add: with_template_simps)
  from f show "onEnter eid st = st"
    by (simp add: onEnter_def)
  from g show "onEnter eid (with_template eid NoEid st) = with_template eid NoEid st"
    by (simp add: onEnter_def)
  have same: "with_template eid (Eid 0) st = st"
    using z by (rule with_template_same)
  show "listen_handler eid e st
       = with_template eid (Eid 0) (listen_handler eid e (with_template eid NoEid st))"
  proof (cases "dateNow e - lastInteractionTime (dataAttribute st eid) \<le> 500")
    case True
    then show ?thesis
      by (simp add: handler_falsy [OF f] handler_falsy [OF g] with_template_simps
            with_template_twice same)
  next
    case False
    then have "with_template eid (Eid 0) (listen_handler eid e (with_template eid NoEid st))
        = (stamp eid (dateNow e) (with_template eid (Eid 0) st))
            \<lparr>console := console st @ [missing_template_message]\<rparr>"
      by (simp add: handler_falsy [OF g] with_template_simps)
         (simp add: with_template_def stamp_def)
    with False show ?thesis
      by (simp add: handler_falsy [OF f] same)
  qed
  show "world (listen_handler eid e st) = world st"
    by (simp add: handler_falsy [OF f] stamp_simps)
  {
    assume acc: "500 < dateNow e - lastInteractionTime (dataAttribute st eid)"
    then show "lastInteractionTime (dataAttribute (listen_handler eid e st) eid) = dateNow e"
      by (simp add: handler_last)
    from acc show "console (listen_handler eid e st) = console st @ [missing_template_message]"
      by (simp add: handler_falsy [OF f])
  }
qed

theorem zero_template_like_unset_witness:
  "entityToSpawn (schemaAttribute (armed0 (Eid 0)) 1) = Eid 0
   \<and> 500 < dateNow (tap_at 1000) - lastInteractionTime (dataAttribute (armed0 (Eid 0)) 1)
   \<and> onEnter 1 (armed0 (Eid 0)) = armed0 (Eid 0)
   \<and> next_eid (world (listen_handler 1 (tap_at 1000) (armed0 (Eid 0)))) = 10
   \<and> lastInteractionTime (dataAttribute (listen_handler 1 (tap_at 1000) (armed0 (Eid 0))) 1) = 1000
   \<and> console (listen_handler 1 (tap_at 1000) (armed0 (Eid 0))) = [missing_template_message]"
proof -
  have z: "entityToSpawn (schemaAttribute (armed0 (Eid 0)) 1) = Eid 0"
    by (simp add: armed0_simps)
  have acc: "500 < dateNow (tap_at 1000) - lastInteractionTime (dataAttribute (armed0 (Eid 0)) 1)"
    by (simp add: armed0_simps tap_at_simps)
  note T = zero_template_like_unset [OF z, of "tap_at 1000"]
  from T have t1: "onEnter 1 (armed0 (Eid 0)) = armed0 (Eid 0)"
    and t2: "world (listen_handler 1 (tap_at 1000) (armed0 (Eid 0))) = world (armed0 (Eid 0))"
    by blast+
  from T acc have t3: "lastInteractionTime
        (dataAttribute (listen_handler 1 (tap_at 1000) (armed0 (Eid 0))) 1) = dateNow (tap_at 1000)"
    and t4: "console (listen_handler 1 (tap_at 1000) (armed0 (Eid 0)))
        = console (armed0 (Eid 0)) @ [missing_template_message]"
    by blast+
  from z acc t1 t2 t3 t4 show ?thesis
    by (simp add: armed0_simps tap_at_simps scene0_simps)
qed

end
